theory Spec2Isabelle
  imports Complex_Main "HOL-Library.Word"
begin

section \<open>The interfaces the frame orchestrator talks to\<close>

text \<open>
  \<open>VkResult\<close> and \<open>VkFormat\<close> are C enumerations of 32-bit integers; a status or a
  format is modelled by its integer value, so that "any other status" is any other
  integer.  A command buffer is a dispatchable handle (a pointer); it is modelled by
  its address, \<open>nullptr\<close> being the address 0.
\<close>

type_synonym VkResult = int
type_synonym VkFormat = int
type_synonym VkCommandBuffer = nat

abbreviation (input) VK_SUCCESS :: VkResult where
  "VK_SUCCESS \<equiv> 0"

abbreviation (input) VK_SUBOPTIMAL_KHR :: VkResult where
  "VK_SUBOPTIMAL_KHR \<equiv> 1000001003"

abbreviation (input) VK_ERROR_OUT_OF_DATE_KHR :: VkResult where
  "VK_ERROR_OUT_OF_DATE_KHR \<equiv> - 1000001004"

abbreviation (input) nullptr :: VkCommandBuffer where
  "nullptr \<equiv> 0"

record VkExtent2D =
  width :: "32 word"
  height :: "32 word"

text \<open>
  Modelled from the spec: the class \<open>LveWindow\<close> (\<open>lve_window.hpp\<close> is not among the
  sources).  The Presentation Surface of the spec reports its current pixel extent
  (\<open>getExtent\<close>), tells whether a resize notification is pending (\<open>wasWindowResized\<close>)
  and clears that notification (\<open>resetWindowResizedFlag\<close>).
\<close>

record LveWindow =
  windowExtent :: VkExtent2D
  framebufferResized :: bool

definition getExtent :: "LveWindow \<Rightarrow> VkExtent2D" where
  "getExtent w = windowExtent w"

definition wasWindowResized :: "LveWindow \<Rightarrow> bool" where
  "wasWindowResized w = framebufferResized w"

definition resetWindowResizedFlag :: "LveWindow \<Rightarrow> LveWindow" where
  "resetWindowResizedFlag w = w\<lparr>framebufferResized := False\<rparr>"

text \<open>
  Modelled from the spec: the class \<open>LveSwapChain\<close> (\<open>lve_swap_chain.hpp\<close> is not among
  the sources).  A Presentation Chain records the colour and depth image formats it
  was built for and its extent; \<open>compareSwapFormats\<close> is the \<open>formatsMatch\<close> of the
  spec, which compares the colour and depth image formats of two chains.
\<close>

record LveSwapChain =
  swapChainImageFormat :: VkFormat
  swapChainDepthFormat :: VkFormat
  swapChainExtent :: VkExtent2D

definition compareSwapFormats :: "LveSwapChain \<Rightarrow> LveSwapChain \<Rightarrow> bool" where
  "compareSwapFormats this other \<longleftrightarrow>
     swapChainDepthFormat other = swapChainDepthFormat this \<and>
     swapChainImageFormat other = swapChainImageFormat this"

text \<open>
  The calls that leave the orchestrator, in the order they are made.  The log is a
  ghost field of the state: the code does not read it.  \<open>RecreateSwapChain\<close> marks the
  entry of the rebuild procedure, \<open>GetExtent e\<close> a call of \<open>lveWindow.getExtent()\<close> that
  reported \<open>e\<close>, \<open>CreateSwapChain e old\<close> the construction of a chain for the extent
  \<open>e\<close> from the predecessor \<open>old\<close>.
\<close>

datatype api_call =
    RecreateSwapChain
  | GetExtent VkExtent2D
  | GlfwWaitEvents
  | VkDeviceWaitIdle
  | CreateSwapChain VkExtent2D "LveSwapChain option"
  | VkAllocateCommandBuffers nat
  | AcquireNextImage
  | VkBeginCommandBuffer VkCommandBuffer
  | VkEndCommandBuffer VkCommandBuffer
  | SubmitCommandBuffers VkCommandBuffer "32 word"
  | ResetWindowResizedFlag
  | VkCmdBeginRenderPass VkCommandBuffer "32 word" VkExtent2D
  | VkCmdSetViewport VkCommandBuffer VkExtent2D
  | VkCmdSetScissor VkCommandBuffer VkExtent2D
  | VkCmdEndRenderPass VkCommandBuffer

section \<open>The frame orchestrator \<open>LveRenderer\<close>\<close>

text \<open>
  The members of \<open>LveRenderer\<close>.  \<open>lveWindow\<close> is a reference in the source; the window
  it refers to is kept in the state.  \<open>lveSwapChain\<close> is a \<open>unique_ptr\<close>, \<open>None\<close> being
  the null pointer.  \<open>currentFrameIndex\<close> is an \<open>int\<close> that starts at 0 and is only ever
  assigned a remainder modulo \<open>MAX_FRAMES_IN_FLIGHT\<close>, so it is a natural number here.
\<close>

record LveRenderer =
  lveWindow :: LveWindow
  lveSwapChain :: "LveSwapChain option"
  commandBuffers :: "VkCommandBuffer list"
  currentImageIndex :: "32 word"
  currentFrameIndex :: nat
  isFrameStarted :: bool
  calls :: "api_call list"

text \<open>
  How a member function ends: it returns a value, throws a \<open>std::runtime_error\<close> with
  a message, fails an \<open>assert\<close> (the assertions are compiled in), runs into undefined
  behaviour (a null or out-of-range access), or never returns because it is blocked
  waiting for window events.  Each outcome comes with the state reached.
\<close>

datatype 'a status =
    Returned 'a
  | Thrown string
  | AssertFailed string
  | UndefinedBehaviour
  | Blocked

definition and_then ::
  "'a status \<times> LveRenderer \<Rightarrow> ('a \<Rightarrow> LveRenderer \<Rightarrow> 'b status \<times> LveRenderer)
     \<Rightarrow> 'b status \<times> LveRenderer" where
  "and_then m f =
     (case m of
        (Returned x, r) \<Rightarrow> f x r
      | (Thrown msg, r) \<Rightarrow> (Thrown msg, r)
      | (AssertFailed msg, r) \<Rightarrow> (AssertFailed msg, r)
      | (UndefinedBehaviour, r) \<Rightarrow> (UndefinedBehaviour, r)
      | (Blocked, r) \<Rightarrow> (Blocked, r))"

definition record_call :: "api_call \<Rightarrow> LveRenderer \<Rightarrow> LveRenderer" where
  "record_call c r = r\<lparr>calls := calls r @ [c]\<rparr>"

text \<open>
  Modelled from the spec: \<open>getCurentCommandBuffer\<close> (declared in \<open>lve_renderer.hpp\<close>,
  which is not among the sources) yields the command buffer owned by the current
  frame slot.  \<open>None\<close> is the out-of-range access.
\<close>

definition getCurentCommandBuffer :: "LveRenderer \<Rightarrow> VkCommandBuffer option" where
  "getCurentCommandBuffer r =
     (if currentFrameIndex r < length (commandBuffers r)
      then Some (commandBuffers r ! currentFrameIndex r) else None)"

subsection \<open>The rebuild procedure\<close>

text \<open>
  What the surroundings answer during one rebuild: \<open>events\<close> lists the states of the
  window after each successive return of \<open>glfwWaitEvents\<close> (when the list is used up,
  no further event arrives and \<open>glfwWaitEvents\<close> does not return); \<open>newSwapChain\<close> is
  the outcome of the \<open>LveSwapChain\<close> constructor, the message of the exception it
  throws or the chain it builds.
\<close>

record rebuild_env =
  events :: "LveWindow list"
  newSwapChain :: "string + LveSwapChain"

definition zeroExtent :: "VkExtent2D \<Rightarrow> bool" where
  "zeroExtent extent \<longleftrightarrow> 0 = width extent \<or> 0 = height extent"

text \<open>
  The loop of \<open>recreateSwapChain\<close>, with the local variable \<open>extent\<close>.  The body reads
  the extent first and waits for events afterwards; \<open>glfwWaitEvents\<close> returns with
  the window in the next state of the list, and does not return when there is none.
\<close>

definition loopBody :: "LveRenderer \<Rightarrow> LveRenderer" where
  "loopBody r = record_call GlfwWaitEvents (record_call (GetExtent (getExtent (lveWindow r))) r)"

fun recreateSwapChain_loop ::
  "LveWindow list \<Rightarrow> VkExtent2D \<Rightarrow> LveRenderer \<Rightarrow> VkExtent2D option \<times> LveRenderer" where
  "recreateSwapChain_loop [] extent r =
     (if zeroExtent extent then (None, loopBody r) else (Some extent, r))"
| "recreateSwapChain_loop (w # evs) extent r =
     (if zeroExtent extent
      then recreateSwapChain_loop evs (getExtent (lveWindow r)) ((loopBody r)\<lparr>lveWindow := w\<rparr>)
      else (Some extent, r))"

definition recreateSwapChain :: "rebuild_env \<Rightarrow> LveRenderer \<Rightarrow> unit status \<times> LveRenderer" where
  "recreateSwapChain env r0 =
     (let r1 = record_call RecreateSwapChain r0;
          extent0 = getExtent (lveWindow r1);
          r2 = record_call (GetExtent extent0) r1
      in case recreateSwapChain_loop (events env) extent0 r2 of
           (None, r3) \<Rightarrow> (Blocked, r3)
         | (Some extent, r3) \<Rightarrow>
             (let r4 = record_call VkDeviceWaitIdle r3;
                  r5 = record_call (CreateSwapChain extent (lveSwapChain r4)) r4
              in case lveSwapChain r4 of
                   None \<Rightarrow>
                     (case newSwapChain env of
                        Inl msg \<Rightarrow> (Thrown msg, r5)
                      | Inr new \<Rightarrow> (Returned (), r5\<lparr>lveSwapChain := Some new\<rparr>))
                 | Some oldSwapChain \<Rightarrow>
                     (case newSwapChain env of
                        Inl msg \<Rightarrow> (Thrown msg, r5\<lparr>lveSwapChain := None\<rparr>)
                      | Inr new \<Rightarrow>
                          (let r6 = r5\<lparr>lveSwapChain := Some new\<rparr>
                           in if \<not> compareSwapFormats oldSwapChain new
                              then (Thrown ''Swap chain Image or depth format has changed'', r6)
                              else (Returned (), r6)))))"

text \<open>
  The log of a run of loop bodies that read the extents \<open>es\<close>, one after the other.
\<close>

definition pollLog :: "VkExtent2D list \<Rightarrow> api_call list" where
  "pollLog es = concat (map (\<lambda>e. [GetExtent e, GlfwWaitEvents]) es)"

subsection \<open>The frame lifecycle\<close>

text \<open>
  What the surroundings answer during one \<open>beginFrame\<close>: the status and the image
  index of \<open>acquireNextImage\<close>, the answers to a rebuild, and the status of
  \<open>vkBeginCommandBuffer\<close>.
\<close>

record begin_env =
  acquireResult :: VkResult
  acquiredImage :: "32 word"
  beginRebuild :: rebuild_env
  beginCommandBufferResult :: VkResult

definition beginFrame :: "begin_env \<Rightarrow> LveRenderer \<Rightarrow> VkCommandBuffer status \<times> LveRenderer" where
  "beginFrame env r0 =
     (if isFrameStarted r0
      then (AssertFailed ''cannot call beginFrame while already in progress'', r0)
      else case lveSwapChain r0 of
        None \<Rightarrow> (UndefinedBehaviour, r0)
      | Some _ \<Rightarrow>
         (let r1 = record_call AcquireNextImage (r0\<lparr>currentImageIndex := acquiredImage env\<rparr>);
              result = acquireResult env
          in if result = VK_ERROR_OUT_OF_DATE_KHR then
               and_then (recreateSwapChain (beginRebuild env) r1) (\<lambda>_ r. (Returned nullptr, r))
             else if result \<noteq> VK_SUCCESS \<and> result \<noteq> VK_SUBOPTIMAL_KHR then
               (Thrown ''failed to acquire swap chain image!'', r1)
             else
               (let r2 = r1\<lparr>isFrameStarted := True\<rparr>
                in case getCurentCommandBuffer r2 of
                     None \<Rightarrow> (UndefinedBehaviour, r2)
                   | Some commandBuffer \<Rightarrow>
                       (let r3 = record_call (VkBeginCommandBuffer commandBuffer) r2
                        in if beginCommandBufferResult env \<noteq> VK_SUCCESS
                           then (Thrown ''failed to begin recording command buffer!'', r3)
                           else (Returned commandBuffer, r3)))))"

text \<open>
  What the surroundings answer during one \<open>endFrame\<close>: the status of
  \<open>vkEndCommandBuffer\<close>, the status of \<open>submitCommandBuffers\<close>, and the answers to a
  rebuild.  \<open>F\<close> is the constant \<open>LveSwapChain::MAX_FRAMES_IN_FLIGHT\<close>, whose declaration
  is not among the sources; a remainder modulo 0 is undefined behaviour.
\<close>

record end_env =
  endCommandBufferResult :: VkResult
  submitResult :: VkResult
  endRebuild :: rebuild_env

definition endFrame :: "nat \<Rightarrow> end_env \<Rightarrow> LveRenderer \<Rightarrow> unit status \<times> LveRenderer" where
  "endFrame F env r0 =
     (if \<not> isFrameStarted r0
      then (AssertFailed ''cannot call end frame while frame is not in progress'', r0)
      else case getCurentCommandBuffer r0 of
        None \<Rightarrow> (UndefinedBehaviour, r0)
      | Some commandBuffer \<Rightarrow>
         (let r1 = record_call (VkEndCommandBuffer commandBuffer) r0
          in if endCommandBufferResult env \<noteq> VK_SUCCESS
             then (Thrown ''failed to record command buffer!'', r1)
             else case lveSwapChain r1 of
               None \<Rightarrow> (UndefinedBehaviour, r1)
             | Some _ \<Rightarrow>
                (let r2 = record_call (SubmitCommandBuffers commandBuffer (currentImageIndex r1)) r1;
                     result = submitResult env
                 in and_then
                      (if result = VK_ERROR_OUT_OF_DATE_KHR \<or> result = VK_SUBOPTIMAL_KHR \<or>
                          wasWindowResized (lveWindow r2)
                       then recreateSwapChain (endRebuild env)
                              (record_call ResetWindowResizedFlag
                                 (r2\<lparr>lveWindow := resetWindowResizedFlag (lveWindow r2)\<rparr>))
                       else (Returned (), r2))
                      (\<lambda>_ r3.
                         if result \<noteq> VK_SUCCESS
                         then (Thrown ''failed to submit command buffers!'', r3)
                         else if F = 0 then (UndefinedBehaviour, r3\<lparr>isFrameStarted := False\<rparr>)
                         else (Returned (),
                               r3\<lparr>isFrameStarted := False,
                                  currentFrameIndex := (currentFrameIndex r3 + 1) mod F\<rparr>)))))"

definition beginSwapChainRenderPass ::
  "VkCommandBuffer \<Rightarrow> LveRenderer \<Rightarrow> unit status \<times> LveRenderer" where
  "beginSwapChainRenderPass commandBuffer r =
     (if \<not> isFrameStarted r
      then (AssertFailed ''cannot call beginSwapChainRenderPass if frame is not in progress'', r)
      else case getCurentCommandBuffer r of
        None \<Rightarrow> (UndefinedBehaviour, r)
      | Some current \<Rightarrow>
         (if commandBuffer \<noteq> current
          then (AssertFailed ''cant begin render pass on command buffer froma different frame'', r)
          else (case lveSwapChain r of
                  None \<Rightarrow> (UndefinedBehaviour, r)
                | Some chain \<Rightarrow>
                    (Returned (),
                     record_call (VkCmdSetScissor commandBuffer (swapChainExtent chain))
                       (record_call (VkCmdSetViewport commandBuffer (swapChainExtent chain))
                          (record_call (VkCmdBeginRenderPass commandBuffer (currentImageIndex r)
                                          (swapChainExtent chain)) r))))))"

definition endSwapChainRenderPass ::
  "VkCommandBuffer \<Rightarrow> LveRenderer \<Rightarrow> unit status \<times> LveRenderer" where
  "endSwapChainRenderPass commandBuffer r =
     (if \<not> isFrameStarted r
      then (AssertFailed ''cannot call endSwapChainRenderPass if frame is not in progress'', r)
      else case getCurentCommandBuffer r of
        None \<Rightarrow> (UndefinedBehaviour, r)
      | Some current \<Rightarrow>
         if commandBuffer \<noteq> current
         then (AssertFailed ''cant end render pass on command buffer froma different frame'', r)
         else (Returned (), record_call (VkCmdEndRenderPass commandBuffer) r))"

subsection \<open>Construction\<close>

text \<open>
  \<open>createCommandBuffers\<close>: the vector is resized to \<open>F\<close> null handles and
  \<open>vkAllocateCommandBuffers\<close> writes the handles it allocates over them.  The
  surroundings answer with a status and the handles written.
\<close>

record create_env =
  allocateResult :: VkResult
  allocated :: "VkCommandBuffer list"

definition resize :: "VkCommandBuffer list \<Rightarrow> nat \<Rightarrow> VkCommandBuffer list" where
  "resize xs n = take n (xs @ replicate (n - length xs) nullptr)"

definition createCommandBuffers ::
  "nat \<Rightarrow> create_env \<Rightarrow> LveRenderer \<Rightarrow> unit status \<times> LveRenderer" where
  "createCommandBuffers F env r0 =
     (let r1 = r0\<lparr>commandBuffers := resize (commandBuffers r0) F\<rparr>;
          n = length (commandBuffers r1);
          r2 = record_call (VkAllocateCommandBuffers n) r1
      in if allocateResult env \<noteq> VK_SUCCESS
         then (Thrown ''failed to allocate command buffers!'', r2)
         else (Returned (),
               r2\<lparr>commandBuffers :=
                    take n (allocated env) @ drop (length (allocated env)) (commandBuffers r2)\<rparr>))"

text \<open>
  Modelled from the spec: the member initialisers of \<open>LveRenderer\<close> are in
  \<open>lve_renderer.hpp\<close>, which is not among the sources.  The orchestrator starts in the
  state Idle with the frame index 0 and no chain; \<open>imageIndex0\<close> is whatever
  \<open>currentImageIndex\<close> holds before the first acquisition.  The constructor body is
  the one of the source: \<open>recreateSwapChain\<close>, then \<open>createCommandBuffers\<close>.
\<close>

definition newLveRenderer ::
  "nat \<Rightarrow> LveWindow \<Rightarrow> 32 word \<Rightarrow> rebuild_env \<Rightarrow> create_env \<Rightarrow> unit status \<times> LveRenderer" where
  "newLveRenderer F window imageIndex0 renv cenv =
     and_then
       (recreateSwapChain renv
          \<lparr>lveWindow = window, lveSwapChain = None, commandBuffers = [],
           currentImageIndex = imageIndex0, currentFrameIndex = 0,
           isFrameStarted = False, calls = []\<rparr>)
       (\<lambda>_ r. createCommandBuffers F cenv r)"

subsection \<open>Sequences of calls\<close>

text \<open>
  A caller drives the orchestrator by a sequence of calls, as \<open>FirstApp::run\<close> does;
  each call carries the answers of the surroundings to it.  \<open>PollEvents w\<close> is the
  \<open>glfwPollEvents\<close> of the main loop, which leaves the window in the state \<open>w\<close>.  The
  sequence stops at the first call that does not return.
\<close>

datatype call =
    BeginFrame begin_env
  | BeginSwapChainRenderPass VkCommandBuffer
  | EndSwapChainRenderPass VkCommandBuffer
  | EndFrame end_env
  | PollEvents LveWindow

fun step :: "nat \<Rightarrow> call \<Rightarrow> LveRenderer \<Rightarrow> unit status \<times> LveRenderer" where
  "step F (BeginFrame env) r = and_then (beginFrame env r) (\<lambda>_ r'. (Returned (), r'))"
| "step F (BeginSwapChainRenderPass commandBuffer) r = beginSwapChainRenderPass commandBuffer r"
| "step F (EndSwapChainRenderPass commandBuffer) r = endSwapChainRenderPass commandBuffer r"
| "step F (EndFrame env) r = endFrame F env r"
| "step F (PollEvents w) r = (Returned (), r\<lparr>lveWindow := w\<rparr>)"

fun run :: "nat \<Rightarrow> call list \<Rightarrow> LveRenderer \<Rightarrow> unit status \<times> LveRenderer" where
  "run F [] r = (Returned (), r)"
| "run F (c # cs) r =
     (case step F c r of
        (Returned _, r') \<Rightarrow> run F cs r'
      | failure \<Rightarrow> failure)"

text \<open>
  The words of the spec about a history of calls that all returned: a frame is in
  progress when the most recent \<open>beginFrame\<close> succeeded (it acquired an image and
  began recording, so it returned a command buffer) and no \<open>endFrame\<close> has come
  after it.  \<open>frameOpen\<close> reads the history from the most recent call backwards.
\<close>

definition beginFrameSucceeds :: "begin_env \<Rightarrow> bool" where
  "beginFrameSucceeds env \<longleftrightarrow>
     (acquireResult env = VK_SUCCESS \<or> acquireResult env = VK_SUBOPTIMAL_KHR) \<and>
     beginCommandBufferResult env = VK_SUCCESS"

fun frameOpen :: "call list \<Rightarrow> bool" where
  "frameOpen [] = False"
| "frameOpen (BeginFrame env # earlier) = beginFrameSucceeds env"
| "frameOpen (EndFrame env # earlier) = False"
| "frameOpen (c # earlier) = frameOpen earlier"

definition frameInProgress :: "call list \<Rightarrow> bool" where
  "frameInProgress cs = frameOpen (rev cs)"

fun isEndFrame :: "call \<Rightarrow> bool" where
  "isEndFrame (EndFrame env) = True"
| "isEndFrame c = False"

definition completedFrames :: "call list \<Rightarrow> nat" where
  "completedFrames cs = length (filter isEndFrame cs)"

section \<open>Drawable objects\<close>

text \<open>
  \<open>glm::vec3\<close> is a triple of floats and \<open>glm::mat4\<close> a matrix of four columns of four
  floats; the reals stand for the floats.
\<close>

type_synonym vec3 = "real \<times> real \<times> real"
type_synonym mat4 = "real list list"

record TransformComponent =
  translation :: vec3
  scale :: vec3
  rotation :: vec3

type_synonym id_t = "32 word"

text \<open>
  \<open>id_t\<close> is \<open>unsigned int\<close>, 32 bits wide.  The member \<open>id\<close> is called \<open>id'\<close> here;
  \<open>model\<close> is the shared pointer to the geometry, by its address.
\<close>

record LveGameObject =
  id' :: id_t
  model :: "nat option"
  color :: vec3
  transform :: TransformComponent

definition getId :: "LveGameObject \<Rightarrow> id_t" where
  "getId obj = id' obj"

text \<open>
  \<open>createGameObject\<close> reads and increments the static local \<open>currentId\<close>, which the
  model passes in and out; it is 0 when the process starts.
\<close>

definition createGameObject :: "id_t \<Rightarrow> LveGameObject \<times> id_t" where
  "createGameObject currentId =
     (\<lparr>id' = currentId, model = None, color = (0, 0, 0),
       transform = \<lparr>translation = (0, 0, 0), scale = (1, 1, 1), rotation = (0, 0, 0)\<rparr>\<rparr>,
      currentId + 1)"

text \<open>\<open>n\<close> calls of \<open>createGameObject\<close> one after the other.\<close>

fun createGameObjects :: "nat \<Rightarrow> id_t \<Rightarrow> LveGameObject list \<times> id_t" where
  "createGameObjects 0 currentId = ([], currentId)"
| "createGameObjects (Suc n) currentId =
     (case createGameObject currentId of
        (obj, nextId) \<Rightarrow>
          (case createGameObjects n nextId of
             (objs, lastId) \<Rightarrow> (obj # objs, lastId)))"

subsection \<open>The model matrix\<close>

text \<open>
  Matrices are stored by columns, as \<open>glm\<close> stores them: \<open>m ! c ! r\<close> is the entry in
  column \<open>c\<close> and row \<open>r\<close>.
\<close>

definition mat_mul :: "mat4 \<Rightarrow> mat4 \<Rightarrow> mat4" where
  "mat_mul a b =
     map (\<lambda>c. map (\<lambda>r. \<Sum>k\<leftarrow>[0, 1, 2, 3]. (a ! k ! r) * (b ! c ! k)) [0, 1, 2, 3]) [0, 1, 2, 3]"

definition translate :: "vec3 \<Rightarrow> mat4" where
  "translate t =
     (case t of (x, y, z) \<Rightarrow>
        [[1, 0, 0, 0], [0, 1, 0, 0], [0, 0, 1, 0], [x, y, z, 1]])"

definition scaling :: "vec3 \<Rightarrow> mat4" where
  "scaling s =
     (case s of (x, y, z) \<Rightarrow>
        [[x, 0, 0, 0], [0, y, 0, 0], [0, 0, z, 0], [0, 0, 0, 1]])"

definition rotateY :: "real \<Rightarrow> mat4" where
  "rotateY a = [[cos a, 0, - sin a, 0], [0, 1, 0, 0], [sin a, 0, cos a, 0], [0, 0, 0, 1]]"

definition rotateX :: "real \<Rightarrow> mat4" where
  "rotateX a = [[1, 0, 0, 0], [0, cos a, sin a, 0], [0, - sin a, cos a, 0], [0, 0, 0, 1]]"

definition rotateZ :: "real \<Rightarrow> mat4" where
  "rotateZ a = [[cos a, sin a, 0, 0], [- sin a, cos a, 0, 0], [0, 0, 1, 0], [0, 0, 0, 1]]"

text \<open>
  Modelled from the spec: the body of \<open>TransformComponent::mat4\<close> is not among the
  sources (\<open>game_object.hpp\<close> only declares it).  The spec, and the comment at the
  declaration, compose the matrix as Translate * Ry * Rx * Rz * Scale, the rotation
  vector holding the angles about x, y and z.
\<close>

definition mat4 :: "TransformComponent \<Rightarrow> mat4" where
  "mat4 t =
     (case rotation t of (rx, ry, rz) \<Rightarrow>
        mat_mul (translate (translation t))
          (mat_mul (rotateY ry)
             (mat_mul (rotateX rx)
                (mat_mul (rotateZ rz) (scaling (scale t))))))"

definition translationColumn :: "mat4 \<Rightarrow> vec3" where
  "translationColumn m = (m ! 3 ! 0, m ! 3 ! 1, m ! 3 ! 2)"

definition linearPart :: "mat4 \<Rightarrow> real list list" where
  "linearPart m = map (take 3) (take 3 m)"

text \<open>
  The object that \<open>FirstApp::loadGameObjects\<close> creates: the first object of the
  process, moved to (0, 0.5, 2.5) and scaled by 3, its rotation left at zero.
\<close>

definition loadGameObjects :: "id_t \<Rightarrow> LveGameObject \<times> id_t" where
  "loadGameObjects currentId =
     (case createGameObject currentId of
        (gameObj, nextId) \<Rightarrow>
          (gameObj\<lparr>model := Some 1,
                   transform := (transform gameObj)\<lparr>translation := (0, 1 / 2, 5 / 2),
                                                   scale := (3, 3, 3)\<rparr>\<rparr>,
           nextId))"

section \<open>Sample states\<close>

text \<open>
  A window of 800 by 600 pixels, the same window minimised, a chain built for the
  former, and an orchestrator for two frames in flight, idle and with a frame begun.
\<close>

definition openWindow :: LveWindow where
  "openWindow = \<lparr>windowExtent = \<lparr>width = 800, height = 600\<rparr>, framebufferResized = False\<rparr>"

definition minimizedWindow :: LveWindow where
  "minimizedWindow = \<lparr>windowExtent = \<lparr>width = 0, height = 0\<rparr>, framebufferResized = True\<rparr>"

definition sampleChain :: LveSwapChain where
  "sampleChain =
     \<lparr>swapChainImageFormat = 50, swapChainDepthFormat = 126,
      swapChainExtent = \<lparr>width = 800, height = 600\<rparr>\<rparr>"

definition sampleRebuild :: rebuild_env where
  "sampleRebuild = \<lparr>events = [], newSwapChain = Inr sampleChain\<rparr>"

definition idleRenderer :: LveRenderer where
  "idleRenderer =
     \<lparr>lveWindow = openWindow, lveSwapChain = Some sampleChain, commandBuffers = [4096, 8192],
      currentImageIndex = 0, currentFrameIndex = 0, isFrameStarted = False, calls = []\<rparr>"

definition frameBegunRenderer :: LveRenderer where
  "frameBegunRenderer = idleRenderer\<lparr>isFrameStarted := True\<rparr>"

text \<open>
  Answers of the surroundings: an acquisition and a submission that succeed, an
  acquisition that finds the surface out of date, a submission that finds it
  suboptimal.
\<close>

definition okBegin :: begin_env where
  "okBegin =
     \<lparr>acquireResult = VK_SUCCESS, acquiredImage = 1, beginRebuild = sampleRebuild,
      beginCommandBufferResult = VK_SUCCESS\<rparr>"

definition outOfDateBegin :: begin_env where
  "outOfDateBegin = okBegin\<lparr>acquireResult := VK_ERROR_OUT_OF_DATE_KHR\<rparr>"

definition okEnd :: end_env where
  "okEnd =
     \<lparr>endCommandBufferResult = VK_SUCCESS, submitResult = VK_SUCCESS,
      endRebuild = sampleRebuild\<rparr>"

definition suboptimalEnd :: end_env where
  "suboptimalEnd = okEnd\<lparr>submitResult := VK_SUBOPTIMAL_KHR\<rparr>"

section \<open>Properties of the rebuild procedure\<close>

lemmas sample_defs = openWindow_def minimizedWindow_def sampleChain_def sampleRebuild_def
  idleRenderer_def frameBegunRenderer_def okBegin_def outOfDateBegin_def okEnd_def
  suboptimalEnd_def

lemmas eval_defs = beginFrame_def endFrame_def beginSwapChainRenderPass_def
  endSwapChainRenderPass_def recreateSwapChain_def getCurentCommandBuffer_def
  wasWindowResized_def resetWindowResizedFlag_def getExtent_def zeroExtent_def
  compareSwapFormats_def Let_def

lemma pollLog_Nil [simp]: "pollLog [] = []"
  by (simp add: pollLog_def)

lemma pollLog_Cons [simp]: "pollLog (e # es) = GetExtent e # GlfwWaitEvents # pollLog es"
  by (simp add: pollLog_def)

lemma pollLog_set: "set (pollLog es) \<subseteq> insert GlfwWaitEvents (GetExtent ` set es)"
  by (induction es) auto

lemma record_call_fields [simp]:
  "lveSwapChain (record_call c r) = lveSwapChain r"
  "commandBuffers (record_call c r) = commandBuffers r"
  "currentImageIndex (record_call c r) = currentImageIndex r"
  "currentFrameIndex (record_call c r) = currentFrameIndex r"
  "isFrameStarted (record_call c r) = isFrameStarted r"
  "lveWindow (record_call c r) = lveWindow r"
  "calls (record_call c r) = calls r @ [c]"
  by (simp_all add: record_call_def)

lemma loopBody_fields [simp]:
  "lveSwapChain (loopBody r) = lveSwapChain r"
  "commandBuffers (loopBody r) = commandBuffers r"
  "currentImageIndex (loopBody r) = currentImageIndex r"
  "currentFrameIndex (loopBody r) = currentFrameIndex r"
  "isFrameStarted (loopBody r) = isFrameStarted r"
  "lveWindow (loopBody r) = lveWindow r"
  "calls (loopBody r) = calls r @ [GetExtent (getExtent (lveWindow r)), GlfwWaitEvents]"
  by (simp_all add: loopBody_def)

text \<open>The loop touches the window and the log only.\<close>

lemma loop_fields:
  "recreateSwapChain_loop evs extent r = (res, r') \<Longrightarrow>
     lveSwapChain r' = lveSwapChain r \<and> commandBuffers r' = commandBuffers r \<and>
     currentImageIndex r' = currentImageIndex r \<and> currentFrameIndex r' = currentFrameIndex r \<and>
     isFrameStarted r' = isFrameStarted r"
  by (induction evs arbitrary: extent r) (auto split: if_splits)

lemma loop_window:
  "recreateSwapChain_loop evs extent r = (res, r') \<Longrightarrow>
     lveWindow r' = lveWindow r \<or> lveWindow r' \<in> set evs"
  by (induction evs arbitrary: extent r) (auto split: if_splits)

text \<open>
  The loop logs one body per extent it reads; every value the variable \<open>extent\<close> held
  before the last one was zero, and the loop is left with a non-zero extent only.
\<close>

lemma loop_log:
  "recreateSwapChain_loop evs extent r = (res, r') \<Longrightarrow>
     \<exists>es. calls r' = calls r @ pollLog es \<and>
          (\<forall>e \<in> set (butlast (extent # es)). zeroExtent e) \<and>
          (case res of None \<Rightarrow> es \<noteq> [] | Some e \<Rightarrow> e = last (extent # es) \<and> \<not> zeroExtent e)"
proof (induction evs arbitrary: extent r)
  case Nil
  show ?case
  proof (cases "zeroExtent extent")
    case True
    with Nil have "calls r' = calls r @ pollLog [getExtent (lveWindow r)]" "res = None"
      by auto
    with True show ?thesis by (intro exI [of _ "[getExtent (lveWindow r)]"]) simp
  next
    case False
    with Nil show ?thesis by (intro exI [of _ "[]"]) auto
  qed
next
  case (Cons w evs)
  show ?case
  proof (cases "zeroExtent extent")
    case True
    let ?e = "getExtent (lveWindow r)"
    from True Cons.prems
    have "recreateSwapChain_loop evs ?e ((loopBody r)\<lparr>lveWindow := w\<rparr>) = (res, r')"
      by simp
    from Cons.IH [OF this] obtain es where
      es: "calls r' = calls r @ pollLog (?e # es)"
        "\<forall>e \<in> set (butlast (?e # es)). zeroExtent e"
        "case res of None \<Rightarrow> es \<noteq> [] | Some e \<Rightarrow> e = last (?e # es) \<and> \<not> zeroExtent e"
      by auto
    with True show ?thesis
      by (intro exI [of _ "?e # es"]) (auto split: option.splits)
  next
    case False
    with Cons.prems show ?thesis by (intro exI [of _ "[]"]) auto
  qed
qed

lemma recreateSwapChain_fields:
  "recreateSwapChain env r = (st, r') \<Longrightarrow>
     commandBuffers r' = commandBuffers r \<and> currentImageIndex r' = currentImageIndex r \<and>
     currentFrameIndex r' = currentFrameIndex r \<and> isFrameStarted r' = isFrameStarted r"
  by (auto simp: recreateSwapChain_def Let_def
      split: prod.splits option.splits sum.splits if_splits dest!: loop_fields)

lemma recreateSwapChain_Returned:
  "recreateSwapChain env r = (Returned u, r') \<Longrightarrow>
     \<exists>new. newSwapChain env = Inr new \<and> lveSwapChain r' = Some new"
  by (auto simp: recreateSwapChain_def Let_def
      split: prod.splits option.splits sum.splits if_splits)

lemma recreateSwapChain_status:
  "fst (recreateSwapChain env r) \<noteq> UndefinedBehaviour \<and>
   (\<forall>msg. fst (recreateSwapChain env r) \<noteq> AssertFailed msg)"
  by (auto simp: recreateSwapChain_def Let_def
      split: prod.splits option.splits sum.splits if_splits)

text \<open>A rebuild that finds the window with a non-zero extent does not wait for events.\<close>

lemma recreateSwapChain_not_blocked:
  "\<not> zeroExtent (getExtent (lveWindow r)) \<Longrightarrow> fst (recreateSwapChain env r) \<noteq> Blocked"
  by (cases "events env")
    (auto simp: recreateSwapChain_def Let_def split: option.splits sum.splits)

lemma recreateSwapChain_window:
  "recreateSwapChain env r = (st, r') \<Longrightarrow>
     lveWindow r' = lveWindow r \<or> lveWindow r' \<in> set (events env)"
  by (auto simp: recreateSwapChain_def Let_def
      split: prod.splits option.splits sum.splits if_splits dest!: loop_window)

lemma recreateSwapChain_log:
  assumes "recreateSwapChain env r = (st, r')"
  shows "\<exists>es. es \<noteq> [] \<and> hd es = getExtent (lveWindow r) \<and>
           (\<forall>e \<in> set (butlast es). zeroExtent e) \<and>
           (if st = Blocked
            then calls r' = calls r @ RecreateSwapChain # GetExtent (hd es) # pollLog (tl es)
            else \<not> zeroExtent (last es) \<and>
                 calls r' = calls r @ RecreateSwapChain # GetExtent (hd es) # pollLog (tl es) @
                            [VkDeviceWaitIdle, CreateSwapChain (last es) (lveSwapChain r)])"
proof -
  let ?e0 = "getExtent (lveWindow r)"
  let ?r2 = "record_call (GetExtent ?e0) (record_call RecreateSwapChain r)"
  obtain res r3 where loop: "recreateSwapChain_loop (events env) ?e0 ?r2 = (res, r3)"
    by (cases "recreateSwapChain_loop (events env) ?e0 ?r2")
  from loop_log [OF loop] obtain es where
    es: "calls r3 = calls ?r2 @ pollLog es"
      "\<forall>e \<in> set (butlast (?e0 # es)). zeroExtent e"
      "case res of None \<Rightarrow> es \<noteq> [] | Some e \<Rightarrow> e = last (?e0 # es) \<and> \<not> zeroExtent e"
    by blast
  from loop_fields [OF loop] have ch: "lveSwapChain r3 = lveSwapChain r" by simp
  show ?thesis
  proof (cases res)
    case None
    with assms loop have "st = Blocked" "r' = r3"
      by (simp_all add: recreateSwapChain_def Let_def)
    with es show ?thesis
      by (intro exI [of _ "?e0 # es"]) simp
  next
    case (Some e)
    with assms loop ch have "st \<noteq> Blocked"
      "calls r' = calls r3 @ [VkDeviceWaitIdle, CreateSwapChain e (lveSwapChain r)]"
      by (auto simp: recreateSwapChain_def Let_def split: option.splits sum.splits if_splits)
    with es Some show ?thesis
      by (intro exI [of _ "?e0 # es"]) (auto split: if_splits)
  qed
qed

text \<open>
  C5, as stated, fails.  The loop tests the extent it read before the last
  \<open>glfwWaitEvents\<close>.  A window that is minimised on entry, is restored by the first
  event and is minimised again by the second leaves the loop with the extent 800 by
  600: the chain is constructed while the window reports the extent 0 by 0.
\<close>

theorem recreateSwapChain_constructs_while_minimized:
  "fst (recreateSwapChain
          \<lparr>events = [openWindow, minimizedWindow], newSwapChain = Inr sampleChain\<rparr>
          (idleRenderer\<lparr>lveWindow := minimizedWindow\<rparr>)) = Returned () \<and>
   calls (snd (recreateSwapChain
          \<lparr>events = [openWindow, minimizedWindow], newSwapChain = Inr sampleChain\<rparr>
          (idleRenderer\<lparr>lveWindow := minimizedWindow\<rparr>))) =
     [RecreateSwapChain, GetExtent \<lparr>width = 0, height = 0\<rparr>,
      GetExtent \<lparr>width = 0, height = 0\<rparr>, GlfwWaitEvents,
      GetExtent \<lparr>width = 800, height = 600\<rparr>, GlfwWaitEvents,
      VkDeviceWaitIdle, CreateSwapChain \<lparr>width = 800, height = 600\<rparr> (Some sampleChain)] \<and>
   getExtent (lveWindow (snd (recreateSwapChain
          \<lparr>events = [openWindow, minimizedWindow], newSwapChain = Inr sampleChain\<rparr>
          (idleRenderer\<lparr>lveWindow := minimizedWindow\<rparr>)))) = \<lparr>width = 0, height = 0\<rparr> \<and>
   zeroExtent (getExtent (lveWindow (snd (recreateSwapChain
          \<lparr>events = [openWindow, minimizedWindow], newSwapChain = Inr sampleChain\<rparr>
          (idleRenderer\<lparr>lveWindow := minimizedWindow\<rparr>)))))"
  by (simp add: eval_defs sample_defs)

text \<open>
  C5, amended.  Every execution of \<open>recreateSwapChain\<close> reads a sequence \<open>es\<close> of extents from
  the window, the first on entry and one more in each round of the loop, waiting for
  events after each of the latter.  All extents read before the last one are zero.
  An execution that is blocked in \<open>glfwWaitEvents\<close> has done nothing else: it has
  constructed no chain.  Any other execution has read a last extent that is not
  zero, has then waited for the device to be idle, and has only then constructed the
  new chain, for that extent and from the chain it held on entry; nothing is
  constructed before.  So whatever chain an execution constructs, it constructs for
  an extent that is not zero.
\<close>

theorem recreateSwapChain_waits_for_extent:
  assumes "recreateSwapChain env r = (st, r')"
  shows "(\<exists>es. es \<noteq> [] \<and> hd es = getExtent (lveWindow r) \<and>
            (\<forall>e \<in> set (butlast es). zeroExtent e) \<and>
            (if st = Blocked
             then calls r' = calls r @ RecreateSwapChain # GetExtent (hd es) # pollLog (tl es)
             else \<not> zeroExtent (last es) \<and>
                  calls r' = calls r @ RecreateSwapChain # GetExtent (hd es) # pollLog (tl es) @
                             [VkDeviceWaitIdle, CreateSwapChain (last es) (lveSwapChain r)])) \<and>
         (\<forall>e old. CreateSwapChain e old \<in> set (drop (length (calls r)) (calls r')) \<longrightarrow>
            \<not> zeroExtent e \<and> old = lveSwapChain r \<and> st \<noteq> Blocked)"
proof -
  from recreateSwapChain_log [OF assms] obtain es where
    es: "es \<noteq> []" "hd es = getExtent (lveWindow r)" "\<forall>e \<in> set (butlast es). zeroExtent e"
      "if st = Blocked
       then calls r' = calls r @ RecreateSwapChain # GetExtent (hd es) # pollLog (tl es)
       else \<not> zeroExtent (last es) \<and>
            calls r' = calls r @ RecreateSwapChain # GetExtent (hd es) # pollLog (tl es) @
                       [VkDeviceWaitIdle, CreateSwapChain (last es) (lveSwapChain r)]"
    by blast
  have "\<not> zeroExtent e \<and> old = lveSwapChain r \<and> st \<noteq> Blocked"
    if "CreateSwapChain e old \<in> set (drop (length (calls r)) (calls r'))" for e old
    using that es(4) pollLog_set [of "tl es"] by (auto split: if_splits)
  with es show ?thesis by blast
qed

text \<open>
  The simulation of the spec: the window is minimised on entry and after the first
  event, and is 800 by 600 after the second.  The chain is constructed last, for 800
  by 600, after three reads of a zero extent.
\<close>

theorem recreateSwapChain_waits_for_extent_witness:
  "fst (recreateSwapChain
          \<lparr>events = [minimizedWindow, openWindow, openWindow], newSwapChain = Inr sampleChain\<rparr>
          (idleRenderer\<lparr>lveWindow := minimizedWindow\<rparr>)) = Returned () \<and>
   calls (snd (recreateSwapChain
          \<lparr>events = [minimizedWindow, openWindow, openWindow], newSwapChain = Inr sampleChain\<rparr>
          (idleRenderer\<lparr>lveWindow := minimizedWindow\<rparr>))) =
     [RecreateSwapChain, GetExtent \<lparr>width = 0, height = 0\<rparr>,
      GetExtent \<lparr>width = 0, height = 0\<rparr>, GlfwWaitEvents,
      GetExtent \<lparr>width = 0, height = 0\<rparr>, GlfwWaitEvents,
      GetExtent \<lparr>width = 800, height = 600\<rparr>, GlfwWaitEvents,
      VkDeviceWaitIdle, CreateSwapChain \<lparr>width = 800, height = 600\<rparr> (Some sampleChain)] \<and>
   (\<exists>es. es \<noteq> [] \<and> hd es = \<lparr>width = 0, height = 0\<rparr> \<and>
      (\<forall>e \<in> set (butlast es). zeroExtent e) \<and> \<not> zeroExtent (last es) \<and>
      calls (snd (recreateSwapChain
          \<lparr>events = [minimizedWindow, openWindow, openWindow], newSwapChain = Inr sampleChain\<rparr>
          (idleRenderer\<lparr>lveWindow := minimizedWindow\<rparr>))) =
        RecreateSwapChain # GetExtent (hd es) # pollLog (tl es) @
        [VkDeviceWaitIdle, CreateSwapChain (last es) (Some sampleChain)])"
proof -
  let ?env = "\<lparr>events = [minimizedWindow, openWindow, openWindow], newSwapChain = Inr sampleChain\<rparr>"
  let ?r = "idleRenderer\<lparr>lveWindow := minimizedWindow\<rparr>"
  have st: "fst (recreateSwapChain ?env ?r) = Returned ()"
    by (simp add: recreateSwapChain_def Let_def zeroExtent_def getExtent_def
        compareSwapFormats_def sample_defs)
  have log: "calls (snd (recreateSwapChain ?env ?r)) =
     [RecreateSwapChain, GetExtent \<lparr>width = 0, height = 0\<rparr>,
      GetExtent \<lparr>width = 0, height = 0\<rparr>, GlfwWaitEvents,
      GetExtent \<lparr>width = 0, height = 0\<rparr>, GlfwWaitEvents,
      GetExtent \<lparr>width = 800, height = 600\<rparr>, GlfwWaitEvents,
      VkDeviceWaitIdle, CreateSwapChain \<lparr>width = 800, height = 600\<rparr> (Some sampleChain)]"
    by (simp add: recreateSwapChain_def Let_def zeroExtent_def getExtent_def
        compareSwapFormats_def sample_defs)
  have "recreateSwapChain ?env ?r = (fst (recreateSwapChain ?env ?r), snd (recreateSwapChain ?env ?r))"
    by simp
  from recreateSwapChain_waits_for_extent [OF this, THEN conjunct1] st
  have "\<exists>es. es \<noteq> [] \<and> hd es = \<lparr>width = 0, height = 0\<rparr> \<and>
      (\<forall>e \<in> set (butlast es). zeroExtent e) \<and> \<not> zeroExtent (last es) \<and>
      calls (snd (recreateSwapChain ?env ?r)) =
        RecreateSwapChain # GetExtent (hd es) # pollLog (tl es) @
        [VkDeviceWaitIdle, CreateSwapChain (last es) (Some sampleChain)]"
    by (simp add: idleRenderer_def minimizedWindow_def getExtent_def)
  with st log show ?thesis by blast
qed

text \<open>
  C6.  When the rebuild procedure gets as far as constructing a new chain from a
  predecessor, and the construction yields a chain: if the colour image formats or
  the depth image formats of the two chains differ, the rebuild throws the error
  "Swap chain Image or depth format has changed"; if both formats agree, it does not
  throw but returns, holding the new chain.
\<close>

theorem recreateSwapChain_formats:
  assumes "lveSwapChain r = Some old" and "newSwapChain env = Inr new"
    and "fst (recreateSwapChain env r) \<noteq> Blocked"
  shows "(swapChainImageFormat new \<noteq> swapChainImageFormat old \<or>
          swapChainDepthFormat new \<noteq> swapChainDepthFormat old \<longrightarrow>
            \<not> compareSwapFormats old new \<and>
            fst (recreateSwapChain env r) =
              Thrown ''Swap chain Image or depth format has changed'') \<and>
         (swapChainImageFormat new = swapChainImageFormat old \<and>
          swapChainDepthFormat new = swapChainDepthFormat old \<longrightarrow>
            compareSwapFormats old new \<and>
            fst (recreateSwapChain env r) = Returned () \<and>
            lveSwapChain (snd (recreateSwapChain env r)) = Some new)"
proof -
  let ?e0 = "getExtent (lveWindow r)"
  let ?r2 = "record_call (GetExtent ?e0) (record_call RecreateSwapChain r)"
  obtain res r3 where loop: "recreateSwapChain_loop (events env) ?e0 ?r2 = (res, r3)"
    by (cases "recreateSwapChain_loop (events env) ?e0 ?r2")
  from loop_fields [OF loop] assms(1) have ch: "lveSwapChain r3 = Some old" by simp
  from loop assms(3) obtain e where "res = Some e"
    by (cases res) (auto simp: recreateSwapChain_def Let_def)
  with loop ch assms(2) show ?thesis
    by (auto simp: recreateSwapChain_def Let_def compareSwapFormats_def)
qed

theorem recreateSwapChain_formats_witness:
  "lveSwapChain idleRenderer = Some sampleChain \<and>
   fst (recreateSwapChain sampleRebuild idleRenderer) = Returned () \<and>
   lveSwapChain (snd (recreateSwapChain sampleRebuild idleRenderer)) = Some sampleChain \<and>
   fst (recreateSwapChain (sampleRebuild\<lparr>newSwapChain := Inr (sampleChain\<lparr>swapChainImageFormat := 44\<rparr>)\<rparr>)
          idleRenderer) = Thrown ''Swap chain Image or depth format has changed'' \<and>
   fst (recreateSwapChain (sampleRebuild\<lparr>newSwapChain := Inr (sampleChain\<lparr>swapChainDepthFormat := 124\<rparr>)\<rparr>)
          idleRenderer) = Thrown ''Swap chain Image or depth format has changed''"
proof -
  let ?e1 = "sampleRebuild\<lparr>newSwapChain := Inr (sampleChain\<lparr>swapChainImageFormat := 44\<rparr>)\<rparr>"
  let ?e2 = "sampleRebuild\<lparr>newSwapChain := Inr (sampleChain\<lparr>swapChainDepthFormat := 124\<rparr>)\<rparr>"
  have h: "lveSwapChain idleRenderer = Some sampleChain"
    by (simp add: idleRenderer_def)
  have n: "newSwapChain sampleRebuild = Inr sampleChain"
    "newSwapChain ?e1 = Inr (sampleChain\<lparr>swapChainImageFormat := 44\<rparr>)"
    "newSwapChain ?e2 = Inr (sampleChain\<lparr>swapChainDepthFormat := 124\<rparr>)"
    by (simp_all add: sampleRebuild_def)
  have b: "fst (recreateSwapChain sampleRebuild idleRenderer) \<noteq> Blocked"
    "fst (recreateSwapChain ?e1 idleRenderer) \<noteq> Blocked"
    "fst (recreateSwapChain ?e2 idleRenderer) \<noteq> Blocked"
    by (simp_all add: eval_defs sample_defs)
  from recreateSwapChain_formats [OF h n(1) b(1)] recreateSwapChain_formats [OF h n(2) b(2)]
    recreateSwapChain_formats [OF h n(3) b(3)] h
  show ?thesis by (simp add: sampleChain_def)
qed

section \<open>Properties of the frame lifecycle\<close>

lemma and_then_Returned:
  "and_then m f = (Returned x, r') \<longleftrightarrow> (\<exists>y r1. m = (Returned y, r1) \<and> f y r1 = (Returned x, r'))"
  by (cases m; cases "fst m") (auto simp: and_then_def)

lemma and_then_simps [simp]:
  "and_then (Returned x, r) f = f x r"
  "and_then (Thrown msg, r) f = (Thrown msg, r)"
  "and_then (AssertFailed msg, r) f = (AssertFailed msg, r)"
  "and_then (UndefinedBehaviour, r) f = (UndefinedBehaviour, r)"
  "and_then (Blocked, r) f = (Blocked, r)"
  by (simp_all add: and_then_def)

lemma beginFrame_Returned:
  assumes "beginFrame env r = (Returned cb, r')"
  shows "\<not> isFrameStarted r \<and> currentFrameIndex r' = currentFrameIndex r \<and>
         commandBuffers r' = commandBuffers r \<and> lveSwapChain r' \<noteq> None \<and>
         isFrameStarted r' = beginFrameSucceeds env"
proof (cases "acquireResult env = VK_ERROR_OUT_OF_DATE_KHR")
  case True
  with assms obtain u r1 where
    rc: "recreateSwapChain (beginRebuild env)
           (record_call AcquireNextImage (r\<lparr>currentImageIndex := acquiredImage env\<rparr>)) = (Returned u, r')"
    and ns: "\<not> isFrameStarted r"
    by (auto simp: beginFrame_def Let_def and_then_Returned split: if_splits option.splits)
  from recreateSwapChain_fields [OF rc] recreateSwapChain_Returned [OF rc] ns True show ?thesis
    by (auto simp: beginFrameSucceeds_def)
next
  case False
  with assms show ?thesis
    by (auto simp: beginFrame_def Let_def beginFrameSucceeds_def getCurentCommandBuffer_def
        split: if_splits option.splits)
qed

lemma endFrame_Returned:
  assumes "endFrame F env r = (Returned u, r')"
  shows "isFrameStarted r \<and> \<not> isFrameStarted r' \<and> 0 < F \<and>
         currentFrameIndex r' = (currentFrameIndex r + 1) mod F \<and>
         commandBuffers r' = commandBuffers r \<and> lveSwapChain r' \<noteq> None \<and>
         submitResult env = VK_SUCCESS"
proof -
  from assms obtain cb where started: "isFrameStarted r"
    and cb: "getCurentCommandBuffer r = Some cb"
    and e: "endCommandBufferResult env = VK_SUCCESS"
    and ch: "lveSwapChain r \<noteq> None"
    by (auto simp: endFrame_def Let_def split: if_splits option.splits)
  let ?r2 = "record_call (SubmitCommandBuffers cb (currentImageIndex r)) (record_call (VkEndCommandBuffer cb) r)"
  let ?m = "if submitResult env = VK_ERROR_OUT_OF_DATE_KHR \<or> submitResult env = VK_SUBOPTIMAL_KHR \<or>
                wasWindowResized (lveWindow ?r2)
            then recreateSwapChain (endRebuild env)
                   (record_call ResetWindowResizedFlag (?r2\<lparr>lveWindow := resetWindowResizedFlag (lveWindow ?r2)\<rparr>))
            else (Returned (), ?r2)"
  from assms started cb e ch obtain v r3 where
    m: "?m = (Returned v, r3)" and
    k: "(if submitResult env \<noteq> VK_SUCCESS
         then (Thrown ''failed to submit command buffers!'', r3)
         else if F = 0 then (UndefinedBehaviour, r3\<lparr>isFrameStarted := False\<rparr>)
         else (Returned (),
               r3\<lparr>isFrameStarted := False,
                  currentFrameIndex := (currentFrameIndex r3 + 1) mod F\<rparr>)) = (Returned u, r')"
    by (auto simp: endFrame_def Let_def and_then_Returned split: option.splits)
  from k have ok: "submitResult env = VK_SUCCESS" "0 < F"
    and r': "r' = r3\<lparr>isFrameStarted := False, currentFrameIndex := (currentFrameIndex r3 + 1) mod F\<rparr>"
    by (auto split: if_splits)
  have "currentFrameIndex r3 = currentFrameIndex r \<and> commandBuffers r3 = commandBuffers r \<and>
        lveSwapChain r3 \<noteq> None"
  proof (cases "wasWindowResized (lveWindow ?r2)")
    case True
    with m ok have "recreateSwapChain (endRebuild env)
                   (record_call ResetWindowResizedFlag (?r2\<lparr>lveWindow := resetWindowResizedFlag (lveWindow ?r2)\<rparr>)) = (Returned v, r3)"
      by simp
    from recreateSwapChain_fields [OF this] recreateSwapChain_Returned [OF this]
    show ?thesis by auto
  next
    case False
    with m ok ch show ?thesis by auto
  qed
  with r' ok started show ?thesis by simp
qed

lemma renderPass_Returned:
  "beginSwapChainRenderPass cb r = (Returned u, r') \<Longrightarrow>
     isFrameStarted r \<and> getCurentCommandBuffer r = Some cb \<and> isFrameStarted r' = isFrameStarted r \<and>
     currentFrameIndex r' = currentFrameIndex r \<and> commandBuffers r' = commandBuffers r \<and>
     lveSwapChain r' = lveSwapChain r"
  "endSwapChainRenderPass cb r = (Returned u, r') \<Longrightarrow>
     isFrameStarted r \<and> getCurentCommandBuffer r = Some cb \<and> isFrameStarted r' = isFrameStarted r \<and>
     currentFrameIndex r' = currentFrameIndex r \<and> commandBuffers r' = commandBuffers r \<and>
     lveSwapChain r' = lveSwapChain r"
  by (auto simp: beginSwapChainRenderPass_def endSwapChainRenderPass_def
      split: if_splits option.splits)

lemma step_Returned:
  assumes "step F c r = (Returned u, r')"
  shows "commandBuffers r' = commandBuffers r"
    and "currentFrameIndex r' =
           (if isEndFrame c then (currentFrameIndex r + 1) mod F else currentFrameIndex r)"
    and "isEndFrame c \<Longrightarrow> 0 < F"
    and "lveSwapChain r \<noteq> None \<Longrightarrow> lveSwapChain r' \<noteq> None"
    and "isFrameStarted r = frameOpen h \<Longrightarrow> isFrameStarted r' = frameOpen (c # h)"
proof -
  have "commandBuffers r' = commandBuffers r \<and>
    currentFrameIndex r' =
           (if isEndFrame c then (currentFrameIndex r + 1) mod F else currentFrameIndex r) \<and>
    (isEndFrame c \<longrightarrow> 0 < F) \<and>
    (lveSwapChain r \<noteq> None \<longrightarrow> lveSwapChain r' \<noteq> None) \<and>
    (isFrameStarted r = frameOpen h \<longrightarrow> isFrameStarted r' = frameOpen (c # h))"
  proof (cases c)
    case (BeginFrame env)
    with assms obtain cb where "beginFrame env r = (Returned cb, r')"
      by (auto simp: and_then_Returned)
    from beginFrame_Returned [OF this] BeginFrame show ?thesis by simp
  next
    case (BeginSwapChainRenderPass cb)
    with assms have "beginSwapChainRenderPass cb r = (Returned u, r')" by simp
    from renderPass_Returned(1) [OF this] BeginSwapChainRenderPass show ?thesis by simp
  next
    case (EndSwapChainRenderPass cb)
    with assms have "endSwapChainRenderPass cb r = (Returned u, r')" by simp
    from renderPass_Returned(2) [OF this] EndSwapChainRenderPass show ?thesis by simp
  next
    case (EndFrame env)
    with assms have "endFrame F env r = (Returned u, r')" by simp
    from endFrame_Returned [OF this] EndFrame show ?thesis by simp
  next
    case (PollEvents w)
    with assms show ?thesis by auto
  qed
  then show "commandBuffers r' = commandBuffers r"
    and "currentFrameIndex r' =
           (if isEndFrame c then (currentFrameIndex r + 1) mod F else currentFrameIndex r)"
    and "isEndFrame c \<Longrightarrow> 0 < F"
    and "lveSwapChain r \<noteq> None \<Longrightarrow> lveSwapChain r' \<noteq> None"
    and "isFrameStarted r = frameOpen h \<Longrightarrow> isFrameStarted r' = frameOpen (c # h)"
    by simp_all
qed

lemma run_Cons_Returned:
  "run F (c # cs) r = (Returned u, r') \<longleftrightarrow>
     (\<exists>r1. step F c r = (Returned (), r1) \<and> run F cs r1 = (Returned u, r'))"
  by (cases "step F c r"; cases "fst (step F c r)") auto

lemma run_snoc_Returned:
  "run F (cs @ [c]) r = (Returned u, r') \<longleftrightarrow>
     (\<exists>r1. run F cs r = (Returned (), r1) \<and> step F c r1 = (Returned u, r'))"
proof (induction cs arbitrary: r)
  case Nil
  show ?case by (cases "step F c r"; cases "fst (step F c r)") auto
next
  case (Cons a cs)
  show ?case unfolding append_Cons run_Cons_Returned Cons.IH by blast
qed

lemma run_snoc:
  "run F cs r = (Returned (), r1) \<Longrightarrow> run F (cs @ [c]) r = step F c r1"
proof (induction cs arbitrary: r)
  case Nil
  then show ?case by (cases "step F c r"; cases "fst (step F c r)") auto
next
  case (Cons a cs)
  from Cons.prems obtain r2 where a: "step F a r = (Returned (), r2)"
    and "run F cs r2 = (Returned (), r1)"
    unfolding run_Cons_Returned by blast
  from Cons.IH [OF this(2)] a show ?case by simp
qed

lemma run_invariant:
  assumes "run F cs r0 = (Returned (), r)"
  shows "commandBuffers r = commandBuffers r0"
    and "lveSwapChain r0 \<noteq> None \<Longrightarrow> lveSwapChain r \<noteq> None"
    and "\<not> isFrameStarted r0 \<Longrightarrow> isFrameStarted r = frameInProgress cs"
    and "currentFrameIndex r0 < F \<Longrightarrow>
           currentFrameIndex r = (currentFrameIndex r0 + completedFrames cs) mod F"
proof -
  have "commandBuffers r = commandBuffers r0 \<and>
        (lveSwapChain r0 \<noteq> None \<longrightarrow> lveSwapChain r \<noteq> None) \<and>
        (\<not> isFrameStarted r0 \<longrightarrow> isFrameStarted r = frameInProgress cs) \<and>
        (currentFrameIndex r0 < F \<longrightarrow>
           currentFrameIndex r = (currentFrameIndex r0 + completedFrames cs) mod F)"
    using assms
  proof (induction cs arbitrary: r rule: rev_induct)
    case Nil
    then show ?case by (simp add: frameInProgress_def completedFrames_def)
  next
    case (snoc c cs)
    from snoc.prems obtain r1 where r1: "run F cs r0 = (Returned (), r1)"
      and st: "step F c r1 = (Returned (), r)"
      unfolding run_snoc_Returned by blast
    note IH = snoc.IH [OF r1]
    note S = step_Returned [OF st]
    have "currentFrameIndex r = (currentFrameIndex r0 + completedFrames (cs @ [c])) mod F"
      if "currentFrameIndex r0 < F"
    proof (cases "isEndFrame c")
      case True
      with S(2) IH that show ?thesis
        by (simp add: completedFrames_def mod_Suc_eq)
    next
      case False
      with S(2) IH that show ?thesis
        by (simp add: completedFrames_def)
    qed
    moreover have "isFrameStarted r = frameInProgress (cs @ [c])" if "\<not> isFrameStarted r0"
      using S(5) [of "rev cs"] IH that by (simp add: frameInProgress_def)
    ultimately show ?case using IH S(1,4) by simp
  qed
  then show "commandBuffers r = commandBuffers r0"
    and "lveSwapChain r0 \<noteq> None \<Longrightarrow> lveSwapChain r \<noteq> None"
    and "\<not> isFrameStarted r0 \<Longrightarrow> isFrameStarted r = frameInProgress cs"
    and "currentFrameIndex r0 < F \<Longrightarrow>
           currentFrameIndex r = (currentFrameIndex r0 + completedFrames cs) mod F"
    by simp_all
qed

lemma snd_and_then_fields:
  assumes "\<And>x r1. calls (snd (f x r1)) = calls r1 \<and> lveWindow (snd (f x r1)) = lveWindow r1"
  shows "calls (snd (and_then (st, r) f)) = calls r \<and>
         lveWindow (snd (and_then (st, r) f)) = lveWindow r"
  using assms by (cases st) simp_all

text \<open>
  The constructor leaves the orchestrator idle, at frame index 0, with a chain and
  with the command buffers that were allocated; the sample orchestrator is what it
  constructs for the sample window.
\<close>

lemma newLveRenderer_state:
  assumes "newLveRenderer F window i0 renv cenv = (Returned (), r)"
    and "length (allocated cenv) = F"
  shows "\<not> isFrameStarted r \<and> currentFrameIndex r = 0 \<and> lveSwapChain r \<noteq> None \<and>
         commandBuffers r = allocated cenv"
proof -
  let ?r0 = "\<lparr>lveWindow = window, lveSwapChain = None, commandBuffers = [],
           currentImageIndex = i0, currentFrameIndex = 0,
           isFrameStarted = False, calls = []\<rparr>"
  from assms(1) obtain u r1 where rc: "recreateSwapChain renv ?r0 = (Returned u, r1)"
    and cc: "createCommandBuffers F cenv r1 = (Returned (), r)"
    by (auto simp: newLveRenderer_def and_then_Returned)
  from recreateSwapChain_fields [OF rc] recreateSwapChain_Returned [OF rc]
  have "\<not> isFrameStarted r1" "currentFrameIndex r1 = 0" "lveSwapChain r1 \<noteq> None"
    by auto
  with cc assms(2) show ?thesis
    by (auto simp: createCommandBuffers_def Let_def resize_def split: if_splits)
qed

lemma idleRenderer_constructed:
  "newLveRenderer 2 openWindow 0 sampleRebuild
     \<lparr>allocateResult = VK_SUCCESS, allocated = [4096, 8192]\<rparr> =
   (Returned (),
    idleRenderer\<lparr>calls := [RecreateSwapChain, GetExtent \<lparr>width = 800, height = 600\<rparr>,
                            VkDeviceWaitIdle,
                            CreateSwapChain \<lparr>width = 800, height = 600\<rparr> None,
                            VkAllocateCommandBuffers 2]\<rparr>)"
  by (simp add: newLveRenderer_def createCommandBuffers_def resize_def eval_defs sample_defs)

text \<open>
  C2, as stated, fails.  After an acquisition that reports out-of-date, \<open>beginFrame\<close>
  does not always return the null buffer: it throws when the chain that the rebuild
  constructs has another image format, and it does not return while the window
  stays minimised and no event arrives.  After an acquisition that succeeds, it
  returns no buffer when \<open>vkBeginCommandBuffer\<close> fails: it throws.
\<close>

theorem beginFrame_out_of_date_fatal_or_blocked:
  "fst (beginFrame
          (outOfDateBegin\<lparr>beginRebuild :=
             sampleRebuild\<lparr>newSwapChain := Inr (sampleChain\<lparr>swapChainImageFormat := 44\<rparr>)\<rparr>\<rparr>)
          idleRenderer) = Thrown ''Swap chain Image or depth format has changed'' \<and>
   fst (beginFrame outOfDateBegin (idleRenderer\<lparr>lveWindow := minimizedWindow\<rparr>)) = Blocked \<and>
   fst (beginFrame (okBegin\<lparr>beginCommandBufferResult := - 1\<rparr>) idleRenderer) =
     Thrown ''failed to begin recording command buffer!''"
  by (simp add: eval_defs sample_defs)

text \<open>
  C2, amended.  A call of \<open>beginFrame\<close> on an idle orchestrator that holds a chain
  and whose command buffers are not null.  If \<open>acquireNextImage\<close> reports
  out-of-date, the rebuild procedure is run next and \<open>beginFrame\<close> ends as the
  rebuild ends: when the rebuild returns, \<open>beginFrame\<close> returns the null buffer, no
  frame is started, and the last thing done was to construct a chain, for a
  non-zero extent and from the chain held before, which the orchestrator now
  holds; when the rebuild throws, \<open>beginFrame\<close> throws the same error; when the
  rebuild is blocked, so is \<open>beginFrame\<close>.  If the status is none of success,
  suboptimal and out-of-date, \<open>beginFrame\<close> throws.  Otherwise recording is begun on
  the buffer of the current frame slot; when that succeeds, \<open>beginFrame\<close> returns
  this buffer, which is not null, with the frame started, and when it fails,
  \<open>beginFrame\<close> throws.
\<close>

theorem beginFrame_cases:
  assumes "\<not> isFrameStarted r" and "lveSwapChain r \<noteq> None"
    and "currentFrameIndex r < length (commandBuffers r)"
    and "nullptr \<notin> set (commandBuffers r)"
  shows "(acquireResult env = VK_ERROR_OUT_OF_DATE_KHR \<longrightarrow>
            snd (beginFrame env r) =
              snd (recreateSwapChain (beginRebuild env)
                     (record_call AcquireNextImage
                        (r\<lparr>currentImageIndex := acquiredImage env\<rparr>))) \<and>
            (fst (recreateSwapChain (beginRebuild env)
                    (record_call AcquireNextImage
                       (r\<lparr>currentImageIndex := acquiredImage env\<rparr>))) = Returned () \<longrightarrow>
               fst (beginFrame env r) = Returned nullptr) \<and>
            (\<forall>msg. fst (recreateSwapChain (beginRebuild env)
                    (record_call AcquireNextImage
                       (r\<lparr>currentImageIndex := acquiredImage env\<rparr>))) = Thrown msg \<longrightarrow>
               fst (beginFrame env r) = Thrown msg) \<and>
            (fst (recreateSwapChain (beginRebuild env)
                    (record_call AcquireNextImage
                       (r\<lparr>currentImageIndex := acquiredImage env\<rparr>))) = Blocked \<longrightarrow>
               fst (beginFrame env r) = Blocked) \<and>
            (fst (beginFrame env r) = Returned nullptr \<or> fst (beginFrame env r) = Blocked \<or>
             (\<exists>msg. fst (beginFrame env r) = Thrown msg)) \<and>
            (\<exists>rest. calls (snd (beginFrame env r)) =
                      calls r @ AcquireNextImage # RecreateSwapChain # rest) \<and>
            (\<forall>b. fst (beginFrame env r) = Returned b \<longrightarrow>
               b = nullptr \<and> \<not> isFrameStarted (snd (beginFrame env r)) \<and>
               (\<exists>new e. newSwapChain (beginRebuild env) = Inr new \<and>
                  lveSwapChain (snd (beginFrame env r)) = Some new \<and> \<not> zeroExtent e \<and>
                  last (calls (snd (beginFrame env r))) = CreateSwapChain e (lveSwapChain r)))) \<and>
         (acquireResult env \<noteq> VK_ERROR_OUT_OF_DATE_KHR \<and> acquireResult env \<noteq> VK_SUCCESS \<and>
          acquireResult env \<noteq> VK_SUBOPTIMAL_KHR \<longrightarrow>
            fst (beginFrame env r) = Thrown ''failed to acquire swap chain image!'') \<and>
         (acquireResult env = VK_SUCCESS \<or> acquireResult env = VK_SUBOPTIMAL_KHR \<longrightarrow>
            calls (snd (beginFrame env r)) =
              calls r @ [AcquireNextImage,
                         VkBeginCommandBuffer (commandBuffers r ! currentFrameIndex r)] \<and>
            (beginCommandBufferResult env = VK_SUCCESS \<longrightarrow>
               fst (beginFrame env r) = Returned (commandBuffers r ! currentFrameIndex r) \<and>
               commandBuffers r ! currentFrameIndex r \<noteq> nullptr \<and>
               isFrameStarted (snd (beginFrame env r))) \<and>
            (beginCommandBufferResult env \<noteq> VK_SUCCESS \<longrightarrow>
               fst (beginFrame env r) = Thrown ''failed to begin recording command buffer!''))"
proof -
  let ?r1 = "record_call AcquireNextImage (r\<lparr>currentImageIndex := acquiredImage env\<rparr>)"
  let ?cb = "commandBuffers r ! currentFrameIndex r"
  obtain st r' where rc: "recreateSwapChain (beginRebuild env) ?r1 = (st, r')"
    by (cases "recreateSwapChain (beginRebuild env) ?r1")
  from assms(2) obtain ch where ch: "lveSwapChain r = Some ch" by auto
  from assms(3,4) have nn: "?cb \<noteq> nullptr"
    by (metis nth_mem)
  have ood: "beginFrame env r = and_then (st, r') (\<lambda>_ r. (Returned nullptr, r))"
    if "acquireResult env = VK_ERROR_OUT_OF_DATE_KHR"
    using that assms(1) ch rc by (simp add: beginFrame_def Let_def)
  from recreateSwapChain_log [OF rc] obtain es where
    log: "if st = Blocked
          then calls r' = calls r @ AcquireNextImage # RecreateSwapChain #
                 GetExtent (hd es) # pollLog (tl es)
          else \<not> zeroExtent (last es) \<and>
               calls r' = calls r @ AcquireNextImage # RecreateSwapChain #
                 GetExtent (hd es) # pollLog (tl es) @
                 [VkDeviceWaitIdle, CreateSwapChain (last es) (lveSwapChain r)]"
    by (cases "st = Blocked") auto
  then have pre: "\<exists>rest. calls r' = calls r @ AcquireNextImage # RecreateSwapChain # rest"
    by (auto split: if_splits)
  from recreateSwapChain_status [of "beginRebuild env" ?r1] rc
  have stc: "st \<noteq> UndefinedBehaviour" "\<And>msg. st \<noteq> AssertFailed msg"
    by auto
  have 1: "acquireResult env = VK_ERROR_OUT_OF_DATE_KHR \<longrightarrow>
            snd (beginFrame env r) = snd (recreateSwapChain (beginRebuild env) ?r1) \<and>
            (fst (recreateSwapChain (beginRebuild env) ?r1) = Returned () \<longrightarrow>
               fst (beginFrame env r) = Returned nullptr) \<and>
            (\<forall>msg. fst (recreateSwapChain (beginRebuild env) ?r1) = Thrown msg \<longrightarrow>
               fst (beginFrame env r) = Thrown msg) \<and>
            (fst (recreateSwapChain (beginRebuild env) ?r1) = Blocked \<longrightarrow>
               fst (beginFrame env r) = Blocked) \<and>
            (fst (beginFrame env r) = Returned nullptr \<or> fst (beginFrame env r) = Blocked \<or>
             (\<exists>msg. fst (beginFrame env r) = Thrown msg)) \<and>
            (\<exists>rest. calls (snd (beginFrame env r)) =
                      calls r @ AcquireNextImage # RecreateSwapChain # rest) \<and>
            (\<forall>b. fst (beginFrame env r) = Returned b \<longrightarrow>
               b = nullptr \<and> \<not> isFrameStarted (snd (beginFrame env r)) \<and>
               (\<exists>new e. newSwapChain (beginRebuild env) = Inr new \<and>
                  lveSwapChain (snd (beginFrame env r)) = Some new \<and> \<not> zeroExtent e \<and>
                  last (calls (snd (beginFrame env r))) = CreateSwapChain e (lveSwapChain r)))"
  proof
    assume a: "acquireResult env = VK_ERROR_OUT_OF_DATE_KHR"
    show "snd (beginFrame env r) = snd (recreateSwapChain (beginRebuild env) ?r1) \<and>
            (fst (recreateSwapChain (beginRebuild env) ?r1) = Returned () \<longrightarrow>
               fst (beginFrame env r) = Returned nullptr) \<and>
            (\<forall>msg. fst (recreateSwapChain (beginRebuild env) ?r1) = Thrown msg \<longrightarrow>
               fst (beginFrame env r) = Thrown msg) \<and>
            (fst (recreateSwapChain (beginRebuild env) ?r1) = Blocked \<longrightarrow>
               fst (beginFrame env r) = Blocked) \<and>
            (fst (beginFrame env r) = Returned nullptr \<or> fst (beginFrame env r) = Blocked \<or>
             (\<exists>msg. fst (beginFrame env r) = Thrown msg)) \<and>
            (\<exists>rest. calls (snd (beginFrame env r)) =
                      calls r @ AcquireNextImage # RecreateSwapChain # rest) \<and>
            (\<forall>b. fst (beginFrame env r) = Returned b \<longrightarrow>
               b = nullptr \<and> \<not> isFrameStarted (snd (beginFrame env r)) \<and>
               (\<exists>new e. newSwapChain (beginRebuild env) = Inr new \<and>
                  lveSwapChain (snd (beginFrame env r)) = Some new \<and> \<not> zeroExtent e \<and>
                  last (calls (snd (beginFrame env r))) = CreateSwapChain e (lveSwapChain r)))"
    proof (cases st)
      case (Returned u)
      from Returned log have "\<not> zeroExtent (last es)"
        "last (calls r') = CreateSwapChain (last es) (lveSwapChain r)"
        by simp_all
      with Returned rc recreateSwapChain_Returned [of "beginRebuild env" ?r1 u r']
        recreateSwapChain_fields [OF rc] assms(1) pre
      show ?thesis unfolding ood [OF a] by auto
    qed (use rc pre stc in \<open>simp_all add: ood [OF a]\<close>)
  qed
  have 2: "acquireResult env \<noteq> VK_ERROR_OUT_OF_DATE_KHR \<and> acquireResult env \<noteq> VK_SUCCESS \<and>
          acquireResult env \<noteq> VK_SUBOPTIMAL_KHR \<longrightarrow>
            fst (beginFrame env r) = Thrown ''failed to acquire swap chain image!''"
    using assms(1) ch by (simp add: beginFrame_def Let_def)
  from assms(3) have cur: "getCurentCommandBuffer (?r1\<lparr>isFrameStarted := True\<rparr>) = Some ?cb"
    by (simp add: getCurentCommandBuffer_def)
  have 3: "acquireResult env = VK_SUCCESS \<or> acquireResult env = VK_SUBOPTIMAL_KHR \<longrightarrow>
            calls (snd (beginFrame env r)) =
              calls r @ [AcquireNextImage, VkBeginCommandBuffer ?cb] \<and>
            (beginCommandBufferResult env = VK_SUCCESS \<longrightarrow>
               fst (beginFrame env r) = Returned ?cb \<and> ?cb \<noteq> nullptr \<and>
               isFrameStarted (snd (beginFrame env r))) \<and>
            (beginCommandBufferResult env \<noteq> VK_SUCCESS \<longrightarrow>
               fst (beginFrame env r) = Thrown ''failed to begin recording command buffer!'')"
    using assms(1) ch cur nn by (auto simp: beginFrame_def Let_def)
  from 1 2 3 show ?thesis by blast
qed

theorem beginFrame_cases_witness:
  "\<not> isFrameStarted idleRenderer \<and> lveSwapChain idleRenderer \<noteq> None \<and>
   currentFrameIndex idleRenderer < length (commandBuffers idleRenderer) \<and>
   nullptr \<notin> set (commandBuffers idleRenderer) \<and>
   fst (beginFrame okBegin idleRenderer) = Returned 4096 \<and>
   isFrameStarted (snd (beginFrame okBegin idleRenderer)) \<and>
   calls (snd (beginFrame okBegin idleRenderer)) = [AcquireNextImage, VkBeginCommandBuffer 4096] \<and>
   fst (beginFrame outOfDateBegin idleRenderer) = Returned nullptr \<and>
   lveSwapChain (snd (beginFrame outOfDateBegin idleRenderer)) = Some sampleChain \<and>
   fst (beginFrame (okBegin\<lparr>acquireResult := - 4\<rparr>) idleRenderer) =
     Thrown ''failed to acquire swap chain image!''"
proof -
  have h: "\<not> isFrameStarted idleRenderer" "lveSwapChain idleRenderer \<noteq> None"
    "currentFrameIndex idleRenderer < length (commandBuffers idleRenderer)"
    "nullptr \<notin> set (commandBuffers idleRenderer)"
    by (simp_all add: idleRenderer_def)
  have ood: "fst (recreateSwapChain (beginRebuild outOfDateBegin)
                 (record_call AcquireNextImage
                    (idleRenderer\<lparr>currentImageIndex := acquiredImage outOfDateBegin\<rparr>))) = Returned ()"
    by (simp add: eval_defs sample_defs)
  from beginFrame_cases [OF h, of okBegin] beginFrame_cases [OF h, of outOfDateBegin]
    beginFrame_cases [OF h, of "okBegin\<lparr>acquireResult := - 4\<rparr>"] ood h
  show ?thesis
    by (auto simp: okBegin_def outOfDateBegin_def idleRenderer_def sampleRebuild_def)
qed

text \<open>
  C10.  When \<open>beginFrame\<close> returns the null buffer because \<open>acquireNextImage\<close>
  reported out-of-date, no frame was and no frame is started, the frame index and
  the command buffers are as before, no recording was begun during the call, and
  the orchestrator holds the chain that the rebuild constructed.
\<close>

theorem beginFrame_no_frame_state:
  assumes "beginFrame env r = (Returned nullptr, r')"
    and "acquireResult env = VK_ERROR_OUT_OF_DATE_KHR"
  shows "\<not> isFrameStarted r \<and> \<not> isFrameStarted r' \<and>
         currentFrameIndex r' = currentFrameIndex r \<and>
         commandBuffers r' = commandBuffers r \<and>
         (\<forall>b. VkBeginCommandBuffer b \<notin> set (drop (length (calls r)) (calls r'))) \<and>
         (\<exists>new. newSwapChain (beginRebuild env) = Inr new \<and> lveSwapChain r' = Some new)"
proof -
  let ?r1 = "record_call AcquireNextImage (r\<lparr>currentImageIndex := acquiredImage env\<rparr>)"
  from assms obtain u where
    rc: "recreateSwapChain (beginRebuild env) ?r1 = (Returned u, r')"
    and ns: "\<not> isFrameStarted r"
    by (auto simp: beginFrame_def Let_def and_then_Returned split: if_splits option.splits)
  from recreateSwapChain_log [OF rc] obtain es where
    log: "calls r' = calls r @ AcquireNextImage # RecreateSwapChain # GetExtent (hd es) #
            pollLog (tl es) @ [VkDeviceWaitIdle, CreateSwapChain (last es) (lveSwapChain r)]"
    by auto
  have "VkBeginCommandBuffer b \<notin> set (drop (length (calls r)) (calls r'))" for b
    unfolding log using pollLog_set [of "tl es"] by auto
  with recreateSwapChain_fields [OF rc] recreateSwapChain_Returned [OF rc] ns
  show ?thesis by simp
qed

theorem beginFrame_no_frame_state_witness:
  "fst (beginFrame outOfDateBegin idleRenderer) = Returned nullptr \<and>
   acquireResult outOfDateBegin = VK_ERROR_OUT_OF_DATE_KHR \<and>
   \<not> isFrameStarted (snd (beginFrame outOfDateBegin idleRenderer)) \<and>
   currentFrameIndex (snd (beginFrame outOfDateBegin idleRenderer)) = currentFrameIndex idleRenderer \<and>
   commandBuffers (snd (beginFrame outOfDateBegin idleRenderer)) = commandBuffers idleRenderer \<and>
   lveSwapChain (snd (beginFrame outOfDateBegin idleRenderer)) = Some sampleChain \<and>
   calls (snd (beginFrame outOfDateBegin idleRenderer)) =
     [AcquireNextImage, RecreateSwapChain, GetExtent \<lparr>width = 800, height = 600\<rparr>,
      VkDeviceWaitIdle, CreateSwapChain \<lparr>width = 800, height = 600\<rparr> (Some sampleChain)]"
proof -
  have st: "fst (beginFrame outOfDateBegin idleRenderer) = Returned nullptr"
    by (simp add: eval_defs sample_defs)
  then have r: "beginFrame outOfDateBegin idleRenderer =
      (Returned nullptr, snd (beginFrame outOfDateBegin idleRenderer))"
    by (simp add: prod_eq_iff)
  have a: "acquireResult outOfDateBegin = VK_ERROR_OUT_OF_DATE_KHR"
    by (simp add: outOfDateBegin_def)
  have log: "calls (snd (beginFrame outOfDateBegin idleRenderer)) =
     [AcquireNextImage, RecreateSwapChain, GetExtent \<lparr>width = 800, height = 600\<rparr>,
      VkDeviceWaitIdle, CreateSwapChain \<lparr>width = 800, height = 600\<rparr> (Some sampleChain)]"
    by (simp add: eval_defs sample_defs)
  from beginFrame_no_frame_state [OF r a] st a log
  show ?thesis by (simp add: sample_defs)
qed

text \<open>
  C7.  A call of \<open>endFrame\<close> that reaches the submission.  If the submission
  reports out-of-date, or reports suboptimal, or the resize notification of the
  window is pending, the notification is cleared and the rebuild procedure is
  entered, in this order, right after the submission; and unless an event that
  arrives during the rebuild raises the notification again, it is clear when
  \<open>endFrame\<close> ends.  If none of the three holds, the submission is the last call
  \<open>endFrame\<close> makes: there is no rebuild.
\<close>

theorem endFrame_rebuild_triggers:
  assumes "isFrameStarted r" and "getCurentCommandBuffer r = Some cb"
    and "lveSwapChain r \<noteq> None" and "endCommandBufferResult env = VK_SUCCESS"
  shows "(submitResult env = VK_ERROR_OUT_OF_DATE_KHR \<or> submitResult env = VK_SUBOPTIMAL_KHR \<or>
          wasWindowResized (lveWindow r) \<longrightarrow>
            (\<exists>rest. calls (snd (endFrame F env r)) =
                      calls r @ [VkEndCommandBuffer cb,
                                 SubmitCommandBuffers cb (currentImageIndex r),
                                 ResetWindowResizedFlag, RecreateSwapChain] @ rest) \<and>
            ((\<forall>w \<in> set (events (endRebuild env)). \<not> wasWindowResized w) \<longrightarrow>
               \<not> wasWindowResized (lveWindow (snd (endFrame F env r))))) \<and>
         (\<not> (submitResult env = VK_ERROR_OUT_OF_DATE_KHR \<or>
              submitResult env = VK_SUBOPTIMAL_KHR \<or> wasWindowResized (lveWindow r)) \<longrightarrow>
            calls (snd (endFrame F env r)) =
              calls r @ [VkEndCommandBuffer cb, SubmitCommandBuffers cb (currentImageIndex r)])"
proof -
  let ?r2 = "record_call (SubmitCommandBuffers cb (currentImageIndex r))
               (record_call (VkEndCommandBuffer cb) r)"
  let ?r2' = "record_call ResetWindowResizedFlag
                (?r2\<lparr>lveWindow := resetWindowResizedFlag (lveWindow ?r2)\<rparr>)"
  let ?k = "\<lambda>(u::unit) r3.
              if submitResult env \<noteq> VK_SUCCESS
              then (Thrown ''failed to submit command buffers!'', r3)
              else if F = 0 then (UndefinedBehaviour, r3\<lparr>isFrameStarted := False\<rparr>)
              else (Returned (),
                    r3\<lparr>isFrameStarted := False,
                       currentFrameIndex := (currentFrameIndex r3 + 1) mod F\<rparr>)"
  let ?trigger = "submitResult env = VK_ERROR_OUT_OF_DATE_KHR \<or>
                  submitResult env = VK_SUBOPTIMAL_KHR \<or> wasWindowResized (lveWindow r)"
  from assms(3) obtain ch where ch: "lveSwapChain r = Some ch" by auto
  have k: "calls (snd (?k x r1)) = calls r1 \<and> lveWindow (snd (?k x r1)) = lveWindow r1" for x r1
    by simp
  have ef: "endFrame F env r =
              and_then (if ?trigger then recreateSwapChain (endRebuild env) ?r2'
                        else (Returned (), ?r2)) ?k"
    using assms(1,2,4) ch by (simp add: endFrame_def Let_def)
  have yes: "(\<exists>rest. calls (snd (endFrame F env r)) =
                      calls r @ [VkEndCommandBuffer cb,
                                 SubmitCommandBuffers cb (currentImageIndex r),
                                 ResetWindowResizedFlag, RecreateSwapChain] @ rest) \<and>
            ((\<forall>w \<in> set (events (endRebuild env)). \<not> wasWindowResized w) \<longrightarrow>
               \<not> wasWindowResized (lveWindow (snd (endFrame F env r))))"
    if t: ?trigger
  proof -
    obtain st r3 where rc: "recreateSwapChain (endRebuild env) ?r2' = (st, r3)"
      by (cases "recreateSwapChain (endRebuild env) ?r2'")
    from t rc have "endFrame F env r = and_then (st, r3) ?k"
      unfolding ef by simp
    with snd_and_then_fields [of ?k st r3, OF k]
    have s: "calls (snd (endFrame F env r)) = calls r3"
      "lveWindow (snd (endFrame F env r)) = lveWindow r3"
      by simp_all
    from recreateSwapChain_log [OF rc] obtain rest where
      "calls r3 = calls ?r2' @ RecreateSwapChain # rest"
      by (auto split: if_splits)
    then have "calls r3 = calls r @ [VkEndCommandBuffer cb,
                 SubmitCommandBuffers cb (currentImageIndex r),
                 ResetWindowResizedFlag, RecreateSwapChain] @ rest"
      by simp
    moreover from recreateSwapChain_window [OF rc]
    have "\<not> wasWindowResized (lveWindow r3)"
      if "\<forall>w \<in> set (events (endRebuild env)). \<not> wasWindowResized w"
      using that by (auto simp: wasWindowResized_def resetWindowResizedFlag_def)
    ultimately show ?thesis unfolding s by blast
  qed
  have no: "calls (snd (endFrame F env r)) =
              calls r @ [VkEndCommandBuffer cb, SubmitCommandBuffers cb (currentImageIndex r)]"
    if "\<not> ?trigger"
    using that unfolding ef by simp
  from yes no show ?thesis by blast
qed

theorem endFrame_rebuild_triggers_witness:
  "isFrameStarted frameBegunRenderer \<and> getCurentCommandBuffer frameBegunRenderer = Some 4096 \<and>
   lveSwapChain frameBegunRenderer \<noteq> None \<and> endCommandBufferResult okEnd = VK_SUCCESS \<and>
   wasWindowResized (lveWindow (frameBegunRenderer\<lparr>lveWindow := openWindow\<lparr>framebufferResized := True\<rparr>\<rparr>)) \<and>
   (\<exists>rest. calls (snd (endFrame 2 okEnd
               (frameBegunRenderer\<lparr>lveWindow := openWindow\<lparr>framebufferResized := True\<rparr>\<rparr>))) =
      [VkEndCommandBuffer 4096, SubmitCommandBuffers 4096 0, ResetWindowResizedFlag,
       RecreateSwapChain] @ rest) \<and>
   \<not> wasWindowResized (lveWindow (snd (endFrame 2 okEnd
               (frameBegunRenderer\<lparr>lveWindow := openWindow\<lparr>framebufferResized := True\<rparr>\<rparr>)))) \<and>
   (\<exists>rest. calls (snd (endFrame 2 suboptimalEnd frameBegunRenderer)) =
      [VkEndCommandBuffer 4096, SubmitCommandBuffers 4096 0, ResetWindowResizedFlag,
       RecreateSwapChain] @ rest) \<and>
   calls (snd (endFrame 2 okEnd frameBegunRenderer)) =
      [VkEndCommandBuffer 4096, SubmitCommandBuffers 4096 0]"
proof -
  let ?r = "frameBegunRenderer\<lparr>lveWindow := openWindow\<lparr>framebufferResized := True\<rparr>\<rparr>"
  have h: "isFrameStarted frameBegunRenderer" "getCurentCommandBuffer frameBegunRenderer = Some 4096"
    "lveSwapChain frameBegunRenderer \<noteq> None" "endCommandBufferResult okEnd = VK_SUCCESS"
    and h': "isFrameStarted ?r" "getCurentCommandBuffer ?r = Some 4096"
    "lveSwapChain ?r \<noteq> None" "endCommandBufferResult suboptimalEnd = VK_SUCCESS"
    by (simp_all add: sample_defs getCurentCommandBuffer_def)
  have w: "wasWindowResized (lveWindow ?r)" "\<not> wasWindowResized (lveWindow frameBegunRenderer)"
    by (simp_all add: wasWindowResized_def sample_defs)
  from endFrame_rebuild_triggers [OF h'(1,2,3) h(4), of 2]
    endFrame_rebuild_triggers [OF h(1,2,3) h'(4), of 2]
    endFrame_rebuild_triggers [OF h, of 2] h w
  show ?thesis by (simp add: sample_defs)
qed

text \<open>
  C1 does not hold of the code.  After a submission that reports suboptimal, or
  out-of-date, \<open>endFrame\<close> rebuilds the chain and then throws "failed to submit
  command buffers!", with the frame still marked as started: the test of the status
  that follows the rebuild is no alternative of it.  A submission that succeeds
  returns.
\<close>

theorem endFrame_suboptimal_throws:
  "fst (endFrame 2 suboptimalEnd frameBegunRenderer) = Thrown ''failed to submit command buffers!'' \<and>
   fst (endFrame 2 (okEnd\<lparr>submitResult := VK_ERROR_OUT_OF_DATE_KHR\<rparr>) frameBegunRenderer) =
     Thrown ''failed to submit command buffers!'' \<and>
   calls (snd (endFrame 2 suboptimalEnd frameBegunRenderer)) =
     [VkEndCommandBuffer 4096, SubmitCommandBuffers 4096 0, ResetWindowResizedFlag,
      RecreateSwapChain, GetExtent \<lparr>width = 800, height = 600\<rparr>, VkDeviceWaitIdle,
      CreateSwapChain \<lparr>width = 800, height = 600\<rparr> (Some sampleChain)] \<and>
   isFrameStarted (snd (endFrame 2 suboptimalEnd frameBegunRenderer)) \<and>
   fst (endFrame 2 okEnd frameBegunRenderer) = Returned ()"
  by (simp add: eval_defs sample_defs)

text \<open>
  C3.  After any sequence \<open>cs\<close> of calls that all returned, made on an orchestrator
  that was idle, \<open>beginSwapChainRenderPass\<close> returns exactly when a frame is in
  progress (the most recent \<open>beginFrame\<close> of \<open>cs\<close> succeeded and no \<open>endFrame\<close>
  follows it) and the buffer passed is the buffer of the current frame slot; in
  every other case an assertion fails.  The same holds of
  \<open>endSwapChainRenderPass\<close>.
\<close>

theorem renderPass_only_in_frame:
  assumes "\<not> isFrameStarted r0" and "length (commandBuffers r0) = F"
    and "currentFrameIndex r0 < F" and "lveSwapChain r0 \<noteq> None"
    and "run F cs r0 = (Returned (), r)"
  shows "(fst (run F (cs @ [BeginSwapChainRenderPass cb]) r0) = Returned () \<longleftrightarrow>
            frameInProgress cs \<and> getCurentCommandBuffer r = Some cb) \<and>
         (fst (run F (cs @ [EndSwapChainRenderPass cb]) r0) = Returned () \<longleftrightarrow>
            frameInProgress cs \<and> getCurentCommandBuffer r = Some cb) \<and>
         (\<not> (frameInProgress cs \<and> getCurentCommandBuffer r = Some cb) \<longrightarrow>
            (\<exists>msg. fst (run F (cs @ [BeginSwapChainRenderPass cb]) r0) = AssertFailed msg) \<and>
            (\<exists>msg. fst (run F (cs @ [EndSwapChainRenderPass cb]) r0) = AssertFailed msg)) \<and>
         getCurentCommandBuffer r = Some (commandBuffers r0 ! currentFrameIndex r)"
proof -
  note I = run_invariant [OF assms(5)]
  from I(4) [OF assms(3)] assms(3) have "currentFrameIndex r < F" by simp
  with I(1) assms(2) have cur: "getCurentCommandBuffer r = Some (commandBuffers r0 ! currentFrameIndex r)"
    by (simp add: getCurentCommandBuffer_def)
  from I(2) assms(4) obtain ch where ch: "lveSwapChain r = Some ch" by auto
  from I(3) assms(1) have fs: "isFrameStarted r = frameInProgress cs" by simp
  have b: "run F (cs @ [BeginSwapChainRenderPass cb]) r0 = beginSwapChainRenderPass cb r"
    and e: "run F (cs @ [EndSwapChainRenderPass cb]) r0 = endSwapChainRenderPass cb r"
    using run_snoc [OF assms(5)] by simp_all
  show ?thesis
    unfolding b e using cur ch fs
    by (auto simp: beginSwapChainRenderPass_def endSwapChainRenderPass_def)
qed

theorem renderPass_only_in_frame_witness:
  "\<not> isFrameStarted idleRenderer \<and> length (commandBuffers idleRenderer) = 2 \<and>
   currentFrameIndex idleRenderer < 2 \<and> lveSwapChain idleRenderer \<noteq> None \<and>
   fst (run 2 [BeginFrame okBegin] idleRenderer) = Returned () \<and>
   frameInProgress [BeginFrame okBegin] \<and>
   getCurentCommandBuffer (snd (run 2 [BeginFrame okBegin] idleRenderer)) = Some 4096 \<and>
   fst (run 2 ([BeginFrame okBegin] @ [BeginSwapChainRenderPass 4096]) idleRenderer) = Returned () \<and>
   fst (run 2 ([BeginFrame okBegin] @ [EndSwapChainRenderPass 4096]) idleRenderer) = Returned () \<and>
   (\<exists>msg. fst (run 2 ([BeginFrame okBegin] @ [BeginSwapChainRenderPass 8192]) idleRenderer) =
      AssertFailed msg) \<and>
   (\<exists>msg. fst (run 2 ([] @ [BeginSwapChainRenderPass 4096]) idleRenderer) = AssertFailed msg)"
proof -
  let ?cs = "[BeginFrame okBegin]"
  have h: "\<not> isFrameStarted idleRenderer" "length (commandBuffers idleRenderer) = 2"
    "currentFrameIndex idleRenderer < 2" "lveSwapChain idleRenderer \<noteq> None"
    by (simp_all add: idleRenderer_def)
  have st: "fst (run 2 ?cs idleRenderer) = Returned ()"
    by (simp add: eval_defs sample_defs)
  then have r: "run 2 ?cs idleRenderer = (Returned (), snd (run 2 ?cs idleRenderer))"
    by (simp add: prod_eq_iff)
  have r0: "run 2 [] idleRenderer = (Returned (), idleRenderer)"
    by simp
  have fp: "frameInProgress ?cs" "\<not> frameInProgress []"
    by (simp_all add: frameInProgress_def beginFrameSucceeds_def okBegin_def)
  have cur: "getCurentCommandBuffer (snd (run 2 ?cs idleRenderer)) = Some 4096"
    by (simp add: eval_defs sample_defs)
  from renderPass_only_in_frame [OF h r, of 4096] renderPass_only_in_frame [OF h r, of 8192]
    renderPass_only_in_frame [OF h r0, of 4096] st fp cur h
  show ?thesis by simp
qed

text \<open>
  C4.  After any sequence \<open>cs\<close> of calls that all returned, made on an orchestrator
  at frame index 0, the frame index is the number of \<open>endFrame\<close> calls of \<open>cs\<close>
  modulo \<open>F\<close>, whatever rebuilds took place: it is that number while fewer than \<open>F\<close>
  frames are completed, so it takes \<open>F\<close> distinct values, and it is 0 again when \<open>F\<close>
  frames are completed.  Every further \<open>endFrame\<close> that returns advances it by one
  modulo \<open>F\<close>.
\<close>

theorem currentFrameIndex_cycles:
  assumes "0 < F" and "currentFrameIndex r0 = 0" and "run F cs r0 = (Returned (), r)"
  shows "currentFrameIndex r = completedFrames cs mod F \<and>
         (completedFrames cs < F \<longrightarrow> currentFrameIndex r = completedFrames cs) \<and>
         (completedFrames cs = F \<longrightarrow> currentFrameIndex r = 0) \<and>
         (\<forall>env r'. endFrame F env r = (Returned (), r') \<longrightarrow>
            currentFrameIndex r' = (currentFrameIndex r + 1) mod F)"
proof -
  from assms have "currentFrameIndex r0 < F" by simp
  from run_invariant(4) [OF assms(3) this] assms(2)
  have "currentFrameIndex r = completedFrames cs mod F" by simp
  moreover have "currentFrameIndex r' = (currentFrameIndex r + 1) mod F"
    if "endFrame F env r = (Returned (), r')" for env r'
    using endFrame_Returned [OF that] by simp
  ultimately show ?thesis by auto
qed

theorem currentFrameIndex_cycles_witness:
  "(0::nat) < 2 \<and> currentFrameIndex idleRenderer = 0 \<and>
   fst (run 2 [BeginFrame okBegin, PollEvents (openWindow\<lparr>framebufferResized := True\<rparr>),
               EndFrame okEnd, BeginFrame outOfDateBegin, BeginFrame okBegin, EndFrame okEnd]
          idleRenderer) = Returned () \<and>
   completedFrames [BeginFrame okBegin, PollEvents (openWindow\<lparr>framebufferResized := True\<rparr>),
               EndFrame okEnd, BeginFrame outOfDateBegin, BeginFrame okBegin, EndFrame okEnd] = 2 \<and>
   currentFrameIndex (snd (run 2 [BeginFrame okBegin,
               PollEvents (openWindow\<lparr>framebufferResized := True\<rparr>),
               EndFrame okEnd, BeginFrame outOfDateBegin, BeginFrame okBegin, EndFrame okEnd]
          idleRenderer)) = 0 \<and>
   currentFrameIndex (snd (run 2 [BeginFrame okBegin, EndFrame okEnd] idleRenderer)) = 1"
proof -
  let ?cs = "[BeginFrame okBegin, PollEvents (openWindow\<lparr>framebufferResized := True\<rparr>),
               EndFrame okEnd, BeginFrame outOfDateBegin, BeginFrame okBegin, EndFrame okEnd]"
  let ?cs1 = "[BeginFrame okBegin, EndFrame okEnd]"
  have h: "(0::nat) < 2" "currentFrameIndex idleRenderer = 0"
    by (simp_all add: idleRenderer_def)
  have st: "fst (run 2 ?cs idleRenderer) = Returned ()"
    by (simp add: eval_defs sample_defs)
  then have r: "run 2 ?cs idleRenderer = (Returned (), snd (run 2 ?cs idleRenderer))"
    by (simp add: prod_eq_iff)
  have "fst (run 2 ?cs1 idleRenderer) = Returned ()"
    by (simp add: eval_defs sample_defs)
  then have r1: "run 2 ?cs1 idleRenderer = (Returned (), snd (run 2 ?cs1 idleRenderer))"
    by (simp add: prod_eq_iff)
  have c: "completedFrames ?cs = 2" "completedFrames ?cs1 = 1"
    by (simp_all add: completedFrames_def)
  from currentFrameIndex_cycles [OF h r] currentFrameIndex_cycles [OF h r1] st c h
  show ?thesis by simp
qed

section \<open>Properties of drawable objects\<close>

lemma createGameObjects_length: "length (fst (createGameObjects n c)) = n"
  by (induction n arbitrary: c) (simp_all add: case_prod_unfold)

text \<open>The object created by call number \<open>k\<close> (counting from 0) gets the counter plus \<open>k\<close>.\<close>

lemma createGameObjects_nth:
  "k < n \<Longrightarrow> getId (fst (createGameObjects n c) ! k) = c + of_nat k"
proof (induction n arbitrary: c k)
  case 0
  then show ?case by simp
next
  case (Suc n)
  show ?case
  proof (cases k)
    case 0
    then show ?thesis by (simp add: createGameObject_def getId_def case_prod_unfold)
  next
    case (Suc j)
    with Suc.prems have "j < n" by simp
    from Suc.IH [OF this, of "c + 1"] Suc show ?thesis
      by (simp add: createGameObject_def case_prod_unfold add.assoc)
  qed
qed

text \<open>
  C9, as stated, fails: the counter is an \<open>unsigned int\<close> and wraps around.  Of
  \<open>2 ^ 32 + 1\<close> objects created in one process, the last one gets the id of the
  first one.
\<close>

theorem createGameObject_id_reused:
  "getId (fst (createGameObjects (2 ^ 32 + 1) 0) ! (2 ^ 32)) =
   getId (fst (createGameObjects (2 ^ 32 + 1) 0) ! 0)"
proof -
  have a: "getId (fst (createGameObjects (2 ^ 32 + 1) 0) ! (2 ^ 32)) = 0 + of_nat (2 ^ 32)"
    by (rule createGameObjects_nth) simp
  have b: "getId (fst (createGameObjects (2 ^ 32 + 1) 0) ! 0) = 0 + of_nat 0"
    by (rule createGameObjects_nth) simp
  show ?thesis unfolding a b by simp
qed

text \<open>
  C9, amended.  For every sequence of at most \<open>2 ^ 32\<close> calls of \<open>createGameObject\<close>
  within one process, the ids returned are strictly increasing in the order of the
  calls, and no id is assigned to two objects.
\<close>

theorem createGameObject_ids_increasing:
  assumes "n \<le> 2 ^ 32"
  shows "sorted_wrt (<) (map getId (fst (createGameObjects n 0))) \<and>
         distinct (map getId (fst (createGameObjects n 0)))"
proof -
  let ?ids = "map getId (fst (createGameObjects n 0))"
  have len: "length ?ids = n" by (simp add: createGameObjects_length)
  have nth: "?ids ! k = of_nat k" if "k < n" for k
    using that createGameObjects_nth [OF that, of 0] by (simp add: createGameObjects_length)
  have "?ids ! i < ?ids ! j" if "i < j" "j < n" for i j
  proof -
    from that assms have "i < 2 ^ 32" "j < 2 ^ 32" by simp_all
    then have "unat (of_nat i :: 32 word) = i" "unat (of_nat j :: 32 word) = j"
      by (simp_all add: unat_of_nat)
    with that show ?thesis by (simp add: nth word_less_nat_alt)
  qed
  with len have s: "sorted_wrt (<) ?ids"
    unfolding sorted_wrt_iff_nth_less by metis
  then have "distinct ?ids"
    using strict_sorted_iff by blast
  with s show ?thesis by simp
qed

theorem createGameObject_ids_increasing_witness:
  "(3::nat) \<le> 2 ^ 32 \<and>
   sorted_wrt (<) (map getId (fst (createGameObjects 3 0))) \<and>
   distinct (map getId (fst (createGameObjects 3 0))) \<and>
   map getId (fst (createGameObjects 3 0)) = [0, 1, 2]"
proof -
  have "createGameObjects 3 0 = createGameObjects (Suc (Suc (Suc 0))) 0"
    by (simp add: eval_nat_numeral)
  then have "map getId (fst (createGameObjects 3 0)) = [0, 1, 2]"
    by (simp add: createGameObject_def getId_def)
  with createGameObject_ids_increasing [of 3] show ?thesis
    by simp
qed

text \<open>
  C8.  The model matrix is the product Translate * Ry * Rx * Rz * Scale.  For the
  object of \<open>loadGameObjects\<close>, translated to (0, 0.5, 2.5), scaled by 3 and not
  rotated, its translation column is (0, 0.5, 2.5) and its upper-left 3 by 3 part is
  3 times the identity.
\<close>

theorem mat4_loadGameObjects:
  "mat4 t =
     mat_mul (translate (translation t))
       (mat_mul (rotateY (fst (snd (rotation t))))
          (mat_mul (rotateX (fst (rotation t)))
             (mat_mul (rotateZ (snd (snd (rotation t)))) (scaling (scale t))))) \<and>
   translationColumn (mat4 (transform (fst (loadGameObjects 0)))) = (0, 1 / 2, 5 / 2) \<and>
   linearPart (mat4 (transform (fst (loadGameObjects 0)))) = [[3, 0, 0], [0, 3, 0], [0, 0, 3]] \<and>
   mat4 (transform (fst (loadGameObjects 0))) =
     [[3, 0, 0, 0], [0, 3, 0, 0], [0, 0, 3, 0], [0, 1 / 2, 5 / 2, 1]]"
proof -
  have m: "mat4 (transform (fst (loadGameObjects 0))) =
      [[3, 0, 0, 0], [0, 3, 0, 0], [0, 0, 3, 0], [0, 1 / 2, 5 / 2, 1]]"
    by (simp add: loadGameObjects_def createGameObject_def mat4_def mat_mul_def
        translate_def scaling_def rotateY_def rotateX_def rotateZ_def)
  have c: "mat4 t =
     mat_mul (translate (translation t))
       (mat_mul (rotateY (fst (snd (rotation t))))
          (mat_mul (rotateX (fst (rotation t)))
             (mat_mul (rotateZ (snd (snd (rotation t)))) (scaling (scale t)))))"
    by (simp add: mat4_def case_prod_unfold)
  show ?thesis
    unfolding m by (simp add: c translationColumn_def linearPart_def)
qed

end
